theory Spec2Isabelle
  imports Complex_Main
begin

section \<open>JavaScript strings and truthiness\<close>

text \<open>
  A JavaScript string is modelled as a \<^typ>\<open>string\<close>: a list of code units, each below 256.
  A value of type \<open>string | undefined\<close> is a \<^typ>\<open>string option\<close>. In a condition the empty
  string and \<open>undefined\<close> are both falsy.
\<close>

definition truthy :: "string option \<Rightarrow> bool" where
  "truthy v = (case v of None \<Rightarrow> False | Some s \<Rightarrow> s \<noteq> [])"

text \<open>\<open>v || ''\<close> on an optional string.\<close>

definition orEmpty :: "string option \<Rightarrow> string" where
  "orEmpty v = (case v of None \<Rightarrow> [] | Some s \<Rightarrow> s)"

text \<open>\<open>v || null\<close> on a string: the empty string becomes \<open>null\<close>.\<close>

definition orNull :: "string \<Rightarrow> string option" where
  "orNull s = (if s = [] then None else Some s)"

text \<open>
  \<open>toLowerCase\<close> on code units below 256: \<open>A\<close>..\<open>Z\<close> and the Latin-1 capitals
  (192..222 without the multiplication sign 215) move up by 32, every other unit stays.
\<close>

definition lowerChar :: "char \<Rightarrow> char" where
  "lowerChar c =
     (let n = (of_char c :: nat)
      in if (65 \<le> n \<and> n \<le> 90) \<or> (192 \<le> n \<and> n \<le> 222 \<and> n \<noteq> 215)
         then char_of (n + 32) else c)"

definition toLowerCase :: "string \<Rightarrow> string" where
  "toLowerCase s = map lowerChar s"

text \<open>\<open>s.split(sep)[0]\<close> for a one-character separator: the text before its first occurrence.\<close>

definition splitFirst :: "char \<Rightarrow> string \<Rightarrow> string" where
  "splitFirst sep s = takeWhile (\<lambda>c. c \<noteq> sep) s"

text \<open>Removing from both ends the code units that satisfy \<open>P\<close>.\<close>

definition stripBoth :: "(char \<Rightarrow> bool) \<Rightarrow> string \<Rightarrow> string" where
  "stripBoth P s = rev (dropWhile P (rev (dropWhile P s)))"

text \<open>
  \<open>trim\<close> removes white space and line terminators; below 256 these are the units
  9..13, 32 and 160.
\<close>

definition isWhitespace :: "char \<Rightarrow> bool" where
  "isWhitespace c = (let n = (of_char c :: nat) in (9 \<le> n \<and> n \<le> 13) \<or> n = 32 \<or> n = 160)"

definition trim :: "string \<Rightarrow> string" where
  "trim s = stripBoth isWhitespace s"

section \<open>Slug normalisation (identifyOrganization)\<close>

text \<open>The character class \<open>[a-z0-9-]\<close>.\<close>

definition isSlugChar :: "char \<Rightarrow> bool" where
  "isSlugChar c =
     (let n = (of_char c :: nat)
      in (97 \<le> n \<and> n \<le> 122) \<or> (48 \<le> n \<and> n \<le> 57) \<or> n = 45)"

text \<open>\<open>.replace(/[^a-z0-9-]/g, '-')\<close>\<close>

definition replaceNonSlug :: "string \<Rightarrow> string" where
  "replaceNonSlug s = map (\<lambda>c. if isSlugChar c then c else CHR ''-'') s"

text \<open>\<open>.replace(/^-+|-+$/g, '')\<close>\<close>

definition stripHyphens :: "string \<Rightarrow> string" where
  "stripHyphens s = stripBoth (\<lambda>c. c = CHR ''-'') s"

text \<open>
  \<open>String(s).trim().toLowerCase().replace(/[^a-z0-9-]/g, '-').replace(/^-+|-+$/g, '')\<close>:
  the expression that computes \<open>normalizedSlug\<close>, and again the local function \<open>norm\<close> of the
  fallback scan.
\<close>

definition normalizeSlug :: "string \<Rightarrow> string" where
  "normalizeSlug s = stripHyphens (replaceNonSlug (toLowerCase (trim s)))"

section \<open>Tenant resolution\<close>

record organization =
  orgId :: string
  orgName :: string
  orgSlug :: string
  orgSubdomain :: "string option"

text \<open>The parts of a request that the middleware reads.\<close>

record request =
  hostHeader :: "string option"
  paramOrgSlug :: "string option"
  queryOrg :: "string option"
  headerOrgSlug :: "string option"
  queryToken :: "string option"
  authorization :: "string option"

text \<open>
  The request context that the middleware chain fills in: \<open>req.userId\<close>, \<open>req.userRole\<close>,
  \<open>req.organizationId\<close> and \<open>req.organization\<close>.
\<close>

record reqContext =
  userId :: "string option"
  userRole :: "string option"
  organizationId :: "string option"
  organization :: "organization option"

text \<open>A middleware either calls \<open>next()\<close> with the context or answers with a status and a message.\<close>

datatype 'a step = Next 'a | Respond nat string

text \<open>
  Method 1. \<open>env\<close> is \<open>process.env.MAIN_APP_HOST\<close>. The result is \<open>organizationSlug\<close> after the
  first \<open>if\<close>.
\<close>

definition hostOf :: "string option \<Rightarrow> string" where
  "hostOf h = splitFirst CHR '':'' (toLowerCase (orEmpty h))"

definition isMainAppHost :: "string option \<Rightarrow> request \<Rightarrow> bool" where
  "isMainAppHost env req = (hostOf env \<noteq> [] \<and> hostOf (hostHeader req) = hostOf env)"

definition subdomainOf :: "request \<Rightarrow> string" where
  "subdomainOf req = splitFirst CHR ''.'' (hostOf (hostHeader req))"

definition subdomainSignal :: "string option \<Rightarrow> request \<Rightarrow> string option" where
  "subdomainSignal env req =
     (let subdomain = subdomainOf req
      in if \<not> isMainAppHost env req \<and> subdomain \<noteq> [] \<and> subdomain \<noteq> ''www''
            \<and> subdomain \<noteq> ''localhost'' \<and> CHR '':'' \<notin> set subdomain
         then Some subdomain else None)"

text \<open>One of the methods 2 to 4: the signal is taken only while no slug has been found.\<close>

definition orElse :: "string option \<Rightarrow> string option \<Rightarrow> string option" where
  "orElse slug signal = (if \<not> truthy slug \<and> truthy signal then signal else slug)"

definition candidateSlug :: "string option \<Rightarrow> request \<Rightarrow> string option" where
  "candidateSlug env req =
     orElse (orElse (orElse (subdomainSignal env req) (paramOrgSlug req)) (queryOrg req))
       (headerOrgSlug req)"

text \<open>
  \<open>prisma.organization.findFirst\<close> with \<open>OR: [{slug}, {subdomain}]\<close>, then the fallback scan
  over all organizations with the stored values normalised.
\<close>

definition exactMatch :: "string \<Rightarrow> organization \<Rightarrow> bool" where
  "exactMatch n org = (orgSlug org = n \<or> orgSubdomain org = Some n)"

definition fallbackMatch :: "string \<Rightarrow> organization \<Rightarrow> bool" where
  "fallbackMatch n org =
     (normalizeSlug (orgSlug org) = n
      \<or> (truthy (orgSubdomain org) \<and> normalizeSlug (orEmpty (orgSubdomain org)) = n))"

definition lookupOrganization :: "organization list \<Rightarrow> string \<Rightarrow> organization option" where
  "lookupOrganization orgs n =
     (case find (exactMatch n) orgs of
        Some org \<Rightarrow> Some org
      | None \<Rightarrow> find (fallbackMatch n) orgs)"

definition identifyOrganization ::
  "string option \<Rightarrow> organization list \<Rightarrow> request \<Rightarrow> reqContext \<Rightarrow> reqContext step" where
  "identifyOrganization env orgs req ctx =
     (let organizationSlug = candidateSlug env req
      in if \<not> truthy organizationSlug then Next ctx
         else let normalizedSlug = normalizeSlug (orEmpty organizationSlug)
              in if normalizedSlug = [] then Next ctx
                 else case lookupOrganization orgs normalizedSlug of
                        None \<Rightarrow> Respond 404 ''Organization not found''
                      | Some org \<Rightarrow>
                          Next (ctx\<lparr>organizationId := Some (orgId org),
                                    organization := Some org\<rparr>))"

section \<open>Access control\<close>

record userOrganization =
  memberUserId :: string
  memberOrganizationId :: string
  memberRole :: string

text \<open>\<open>prisma.userOrganization.findUnique\<close> on the key (userId, organizationId).\<close>

definition findMembership :: "userOrganization list \<Rightarrow> string \<Rightarrow> string \<Rightarrow> userOrganization option" where
  "findMembership ms uid oid =
     find (\<lambda>m. memberUserId m = uid \<and> memberOrganizationId m = oid) ms"

definition verifyOrganizationAccess :: "userOrganization list \<Rightarrow> reqContext \<Rightarrow> reqContext step" where
  "verifyOrganizationAccess ms ctx =
     (if \<not> truthy (organizationId ctx) \<or> \<not> truthy (userId ctx)
      then Respond 401 ''Authentication required''
      else case findMembership ms (orEmpty (userId ctx)) (orEmpty (organizationId ctx)) of
             None \<Rightarrow> Respond 403 ''Access denied: User does not belong to this organization''
           | Some userOrg \<Rightarrow> Next ctx)"

definition requireOrgAdmin :: "userOrganization list \<Rightarrow> reqContext \<Rightarrow> reqContext step" where
  "requireOrgAdmin ms ctx =
     (if \<not> truthy (organizationId ctx) \<or> \<not> truthy (userId ctx)
      then Respond 401 ''Authentication required''
      else case findMembership ms (orEmpty (userId ctx)) (orEmpty (organizationId ctx)) of
             None \<Rightarrow> Respond 403 ''Organization admin access required''
           | Some userOrg \<Rightarrow>
               if memberRole userOrg \<noteq> ''ADMIN'' \<and> userRole ctx \<noteq> Some ''ADMIN''
               then Respond 403 ''Organization admin access required''
               else Next ctx)"

section \<open>Identity middleware and the fallback resolver\<close>

text \<open>\<open>s.split(sep)\<close> for a one-character separator.\<close>

fun splitOn :: "char \<Rightarrow> string \<Rightarrow> string list" where
  "splitOn sep [] = [[]]"
| "splitOn sep (c # cs) =
     (if c = sep then [] # splitOn sep cs
      else case splitOn sep cs of
             [] \<Rightarrow> [[c]]
           | x # xs \<Rightarrow> (c # x) # xs)"

text \<open>\<open>req.headers.authorization?.split(' ')[1]\<close>\<close>

definition bearerToken :: "string option \<Rightarrow> string option" where
  "bearerToken h =
     (case h of
        None \<Rightarrow> None
      | Some s \<Rightarrow> (case splitOn CHR '' '' s of a # b # rest \<Rightarrow> Some b | _ \<Rightarrow> None))"

text \<open>
  The payload of a token. \<open>jwt.verify\<close> belongs to a library and depends on the secret; it
  is the parameter \<open>verify\<close>, which gives the payload of a valid token and \<open>None\<close> where
  \<open>jwt.verify\<close> throws.
\<close>

record jwtPayload =
  jwtUserId :: string
  jwtRole :: string
  jwtOrganizationId :: "string option"

definition authenticate ::
  "(string \<Rightarrow> jwtPayload option) \<Rightarrow> request \<Rightarrow> reqContext \<Rightarrow> reqContext step" where
  "authenticate verify req ctx =
     (let token = bearerToken (authorization req)
      in if \<not> truthy token then Respond 401 ''Authentication required''
         else case verify (orEmpty token) of
                None \<Rightarrow> Respond 401 ''Invalid or expired token''
              | Some decoded \<Rightarrow>
                  let ctx' = ctx\<lparr>userId := Some (jwtUserId decoded),
                                  userRole := Some (jwtRole decoded)\<rparr>
                  in Next (if truthy (jwtOrganizationId decoded)
                           then ctx'\<lparr>organizationId := jwtOrganizationId decoded\<rparr>
                           else ctx'))"

text \<open>
  \<open>getOrganizationFromUser\<close>: \<open>findFirst\<close> with \<open>where: { userId }\<close>,
  \<open>orderBy: { createdAt: 'asc' }\<close> and \<open>include: { organization: true }\<close>. Reading
  \<open>userOrg.organization.id\<close> of a membership without organization would throw inside the
  \<open>try\<close>, which answers 500.
\<close>

definition getOrganizationFromUser ::
  "userOrganization list \<Rightarrow> organization list \<Rightarrow> reqContext \<Rightarrow> reqContext step" where
  "getOrganizationFromUser ms orgs ctx =
     (if truthy (organizationId ctx) then Next ctx
      else if \<not> truthy (userId ctx) then Respond 401 ''Authentication required''
      else case find (\<lambda>m. memberUserId m = orEmpty (userId ctx)) ms of
             None \<Rightarrow> Respond 400 ''User is not a member of any organization''
           | Some userOrg \<Rightarrow>
               (case find (\<lambda>org. orgId org = memberOrganizationId userOrg) orgs of
                  None \<Rightarrow> Respond 500 ''Error getting user organization''
                | Some org \<Rightarrow>
                    Next (ctx\<lparr>organizationId := Some (orgId org),
                              organization :=
                                Some (org\<lparr>orgSubdomain :=
                                        (if truthy (orgSubdomain org) then orgSubdomain org
                                         else None)\<rparr>)\<rparr>)))"

text \<open>Running the next middleware of a chain, unless the previous one has answered.\<close>

definition andThen :: "'a step \<Rightarrow> ('a \<Rightarrow> 'b step) \<Rightarrow> 'b step" where
  "andThen s f = (case s of Next x \<Rightarrow> f x | Respond code msg \<Rightarrow> Respond code msg)"

section \<open>The persistence gateway\<close>

text \<open>
  The tables the handlers read and write, each a list of rows in storage order. Columns
  that no modelled handler reads (timestamps, and the generated ids of notifications and
  activity-log rows) are left out. A query without \<open>orderBy\<close> is taken to answer in storage
  order, and rows are stored in the order of their creation, so that
  \<open>orderBy: { createdAt: 'asc' }\<close> is storage order too. Reads are taken to succeed, so the \<open>catch\<close> branches that answer 500 after a failed
  read have no counterpart; writes may throw (see below).
\<close>

record user =
  usrId :: string
  usrEmail :: string
  usrName :: string

record category =
  catId :: string
  catName :: string
  catOrganizationId :: string

text \<open>
  A \<open>userCategoryAssignment\<close> row. The relation \<open>user\<close> is required, so a query with
  \<open>include: { user }\<close> yields the row together with its user; the row is kept in that form.
\<close>

record userCategoryAssignment =
  asgUserId :: string
  asgCategoryId :: string
  asgOrganizationId :: string
  asgUser :: user

record ticket =
  tktId :: string
  tktTitle :: string
  tktDescription :: string
  tktPriority :: string
  tktStatusId :: string
  tktCategoryId :: "string option"
  tktUserId :: "string option"
  tktOrganizationId :: string
  tktPublicToken :: "string option"
  tktSubmitterName :: "string option"
  tktSubmitterEmail :: "string option"
  tktAssignedTo :: "string option"

record comment =
  cmtId :: string
  cmtTicketId :: string
  cmtContent :: string
  cmtUserId :: "string option"

record ticketStatus =
  stsId :: string
  stsName :: string
  stsNameAr :: "string option"
  stsColor :: "string option"
  stsOrder :: int
  stsOrganizationId :: string

record notification =
  ntfUserId :: string
  ntfType :: string
  ntfTitle :: string
  ntfMessage :: string
  ntfTicketId :: "string option"

record activityLog =
  logTicketId :: string
  logUserId :: "string option"
  logAction :: string
  logField :: "string option"
  logOldValue :: "string option"
  logNewValue :: "string option"
  logMetadata :: "(string \<times> string option) list"

text \<open>The calls of the mailer that the ticket routes make, with their arguments.\<close>

datatype email =
  TicketSubmissionEmail string string string "string option" string string
| TicketAssignmentEmail string string string string string string

text \<open>
  The world a handler runs in: the tables, the mails handed to the mailer (\<open>outbox\<close>) and
  the lines written with \<open>console.error\<close>.
\<close>

record world =
  organizations :: "organization list"
  userOrganizations :: "userOrganization list"
  users :: "user list"
  categories :: "category list"
  userCategoryAssignments :: "userCategoryAssignment list"
  tickets :: "ticket list"
  comments :: "comment list"
  ticketStatuses :: "ticketStatus list"
  notifications :: "notification list"
  activityLogs :: "activityLog list"
  outbox :: "email list"
  console :: "string list"

text \<open>
  A field \<open>{ f: v }\<close> of a \<open>where\<close> clause. The handlers pass \<open>req.organizationId!\<close>, which is
  \<open>undefined\<close> when no middleware has set it; the gateway ignores a field whose value is
  \<open>undefined\<close> and compares for equality otherwise.
\<close>

definition whereEq :: "string option \<Rightarrow> string \<Rightarrow> bool" where
  "whereEq v x = (case v of None \<Rightarrow> True | Some y \<Rightarrow> x = y)"

text \<open>A handler answers with a status and either a JSON payload or a message.\<close>

datatype 'a reply = Json nat 'a | Message nat string

text \<open>The context of a request before any middleware has run.\<close>

definition emptyContext :: reqContext where
  "emptyContext = \<lparr>userId = None, userRole = None, organizationId = None, organization = None\<rparr>"

section \<open>Ticket statuses\<close>



text \<open>
  \<open>DELETE /statuses/:id\<close>, the handler behind \<open>requireOrgAdmin\<close>: \<open>findFirst\<close> with
  \<open>where: { id, organizationId }\<close> and the count of the tickets that reference the status.
\<close>

definition findStatus :: "world \<Rightarrow> reqContext \<Rightarrow> string \<Rightarrow> ticketStatus option" where
  "findStatus w ctx sid =
     find (\<lambda>s. stsId s = sid \<and> whereEq (organizationId ctx) (stsOrganizationId s))
       (ticketStatuses w)"

definition countTickets :: "world \<Rightarrow> ticketStatus \<Rightarrow> nat" where
  "countTickets w s = length (filter (\<lambda>t. tktStatusId t = stsId s) (tickets w))"

definition deleteStatus :: "world \<Rightarrow> reqContext \<Rightarrow> string \<Rightarrow> unit reply \<times> world" where
  "deleteStatus w ctx sid =
     (case findStatus w ctx sid of
        None \<Rightarrow> (Message 404 ''Ticket status not found'', w)
      | Some status \<Rightarrow>
          if countTickets w status > 0
          then (Message 400
                  ''Cannot delete status: some tickets use it. Reassign those tickets to another status first.'',
                w)
          else (Message 200 ''Ticket status deleted successfully'',
                w\<lparr>ticketStatuses := filter (\<lambda>s. stsId s \<noteq> sid) (ticketStatuses w)\<rparr>))"

section \<open>The GET routes of the tickets router\<close>

text \<open>
  The handler registered for \<open>GET /public\<close>: \<open>findFirst\<close> with
  \<open>where: { publicToken: token, organizationId }\<close>, with the comments of the ticket included.
  The payload is the row and its comments; the handler sends a projection of them.
\<close>

definition findPublicTicket :: "world \<Rightarrow> reqContext \<Rightarrow> string \<Rightarrow> ticket option" where
  "findPublicTicket w ctx token =
     find (\<lambda>t. tktPublicToken t = Some token \<and> whereEq (organizationId ctx) (tktOrganizationId t))
       (tickets w)"

definition trackTicket :: "world \<Rightarrow> request \<Rightarrow> reqContext \<Rightarrow> (ticket \<times> comment list) reply" where
  "trackTicket w req ctx =
     (if \<not> truthy (queryToken req) then Message 400 ''Tracking token is required''
      else case findPublicTicket w ctx (orEmpty (queryToken req)) of
             None \<Rightarrow> Message 404 ''Ticket not found''
           | Some t \<Rightarrow> Json 200 (t, filter (\<lambda>c. cmtTicketId c = tktId t) (comments w)))"

text \<open>The route \<open>router.get('/public', identifyOrganization, handler)\<close>.\<close>

definition trackingRoute ::
  "string option \<Rightarrow> world \<Rightarrow> request \<Rightarrow> (ticket \<times> comment list) reply" where
  "trackingRoute env w req =
     (case identifyOrganization env (organizations w) req emptyContext of
        Respond code msg \<Rightarrow> Message code msg
      | Next ctx \<Rightarrow> trackTicket w req ctx)"

text \<open>
  The handler registered for \<open>GET /:id\<close>: \<open>findFirst\<close> with \<open>where: { id, organizationId }\<close>,
  then the check that the actor is an administrator, the submitter or the assignee.
  \<open>uid\<close>, \<open>role\<close> and \<open>oid\<close> are \<open>req.userId!\<close>, \<open>req.userRole!\<close> and \<open>req.organizationId!\<close>,
  \<open>tid\<close> is \<open>req.params.id\<close>. As above, the payload is the row and its comments.
\<close>

definition getTicket ::
  "world \<Rightarrow> string \<Rightarrow> string option \<Rightarrow> string \<Rightarrow> string \<Rightarrow> (ticket \<times> comment list) reply" where
  "getTicket w uid role oid tid =
     (case find (\<lambda>t. tktId t = tid \<and> tktOrganizationId t = oid) (tickets w) of
        None \<Rightarrow> Message 404 ''Ticket not found''
      | Some t \<Rightarrow>
          let userOrg = findMembership (userOrganizations w) uid oid;
              isOrgAdmin = (map_option memberRole userOrg = Some ''ADMIN'' \<or> role = Some ''ADMIN'')
          in if \<not> isOrgAdmin \<and> tktUserId t \<noteq> Some uid \<and> tktAssignedTo t \<noteq> Some uid
             then Message 403 ''Access denied''
             else Json 200 (t, filter (\<lambda>c. cmtTicketId c = tktId t) (comments w)))"

text \<open>
  The chain \<open>authenticate, identifyOrganization, getOrganizationFromUser,
  verifyOrganizationAccess\<close> in front of that handler, and the route
  \<open>router.get('/:id', ...)\<close>. No route of this router has an \<open>:orgSlug\<close> parameter, so
  \<open>paramOrgSlug\<close> is \<open>None\<close> in its requests; the definitions do not depend on that.
\<close>

definition ticketChain ::
  "(string \<Rightarrow> jwtPayload option) \<Rightarrow> string option \<Rightarrow> world \<Rightarrow> request \<Rightarrow> reqContext step" where
  "ticketChain verify env w req =
     andThen
       (andThen
          (andThen (authenticate verify req emptyContext)
             (identifyOrganization env (organizations w) req))
          (getOrganizationFromUser (userOrganizations w) (organizations w)))
       (verifyOrganizationAccess (userOrganizations w))"

definition ticketByIdRoute ::
  "(string \<Rightarrow> jwtPayload option) \<Rightarrow> string option \<Rightarrow> world \<Rightarrow> request \<Rightarrow> string
     \<Rightarrow> (ticket \<times> comment list) reply" where
  "ticketByIdRoute verify env w req tid =
     (case ticketChain verify env w req of
        Respond code msg \<Rightarrow> Message code msg
      | Next ctx \<Rightarrow>
          getTicket w (orEmpty (userId ctx)) (userRole ctx) (orEmpty (organizationId ctx)) tid)"

text \<open>
  The one-segment path patterns of the router: a parameter such as \<open>:id\<close>, which matches
  every non-empty segment, and a fixed segment, which the router compares without regard
  to case.
\<close>

datatype pattern = Param | Literal string

definition matchesSegment :: "pattern \<Rightarrow> string \<Rightarrow> bool" where
  "matchesSegment p seg =
     (case p of Param \<Rightarrow> seg \<noteq> [] | Literal s \<Rightarrow> toLowerCase seg = toLowerCase s)"

text \<open>
  The \<open>GET\<close> routes with a one-segment path, in the order of their registration:
  \<open>router.get('/:id', ...)\<close> comes first, \<open>router.get('/public', ...)\<close> after it. A request goes
  to the first route whose pattern matches; both handlers answer without calling \<open>next()\<close>.
  \<open>None\<close> stands for a path that no route of the list matches.
\<close>

definition getTicketsRoutes ::
  "(string \<Rightarrow> jwtPayload option) \<Rightarrow> string option \<Rightarrow> world \<Rightarrow> request
     \<Rightarrow> (pattern \<times> (string \<Rightarrow> (ticket \<times> comment list) reply)) list" where
  "getTicketsRoutes verify env w req =
     [(Param, ticketByIdRoute verify env w req),
      (Literal ''public'', \<lambda>seg. trackingRoute env w req)]"

definition getTickets ::
  "(string \<Rightarrow> jwtPayload option) \<Rightarrow> string option \<Rightarrow> world \<Rightarrow> request \<Rightarrow> string
     \<Rightarrow> (ticket \<times> comment list) reply option" where
  "getTickets verify env w req seg =
     (case find (\<lambda>(p, h). matchesSegment p seg) (getTicketsRoutes verify env w req) of
        None \<Rightarrow> None
      | Some (p, h) \<Rightarrow> Some (h seg))"

section \<open>Public tracking tokens\<close>

definition chars :: string where
  "chars = ''ABCDEFGHJKLMNPQRSTUVWXYZ23456789''"

text \<open>\<open>s.charAt(i)\<close>: the empty string when \<open>i\<close> is out of range.\<close>

definition charAt :: "string \<Rightarrow> int \<Rightarrow> string" where
  "charAt s i = (if 0 \<le> i \<and> i < int (length s) then [s ! nat i] else [])"

text \<open>
  \<open>generateSimpleToken\<close>. \<open>rand\<close> is the sequence of values that \<open>Math.random()\<close> returns
  and \<open>pos\<close> the number of values already drawn; the loop draws eight.
\<close>

definition generateSimpleToken :: "(nat \<Rightarrow> real) \<Rightarrow> nat \<Rightarrow> string" where
  "generateSimpleToken rand pos =
     concat (map (\<lambda>i. charAt chars \<lfloor>rand (pos + i) * real (length chars)\<rfloor>) [0..<8])"

text \<open>\<open>prisma.ticket.findUnique({ where: { publicToken } })\<close>\<close>

definition tokenExists :: "world \<Rightarrow> string \<Rightarrow> ticket option" where
  "tokenExists w publicToken = find (\<lambda>t. tktPublicToken t = Some publicToken) (tickets w)"

text \<open>
  The loop \<open>while (tokenExists && attempts < 10)\<close>; it returns the token and the number of
  regenerations.
\<close>

function tokenLoop :: "world \<Rightarrow> (nat \<Rightarrow> real) \<Rightarrow> nat \<Rightarrow> string \<Rightarrow> nat \<Rightarrow> string \<times> nat" where
  "tokenLoop w rand pos publicToken attempts =
     (if tokenExists w publicToken \<noteq> None \<and> attempts < 10
      then tokenLoop w rand (pos + 8) (generateSimpleToken rand pos) (attempts + 1)
      else (publicToken, attempts))"
  by pat_completeness auto
termination
  by (relation "measure (\<lambda>(w, rand, pos, publicToken, attempts). 10 - attempts)") auto

definition uniqueToken :: "world \<Rightarrow> (nat \<Rightarrow> real) \<Rightarrow> string \<times> nat" where
  "uniqueToken w rand = tokenLoop w rand 8 (generateSimpleToken rand 0) 0"

section \<open>Writes that may fail\<close>

text \<open>
  A write of the gateway either succeeds or throws (a constraint violation, a lost
  connection). \<open>fault\<close> says which writes throw. An asynchronous function either returns or
  throws; both leave a world behind.
\<close>

datatype dbWrite =
  NotificationCreate notification
| NotificationCreateMany "notification list"
| ActivityLogCreate activityLog
| TicketCreate ticket

datatype jsError = DatabaseError | ZodError

datatype 'a outcome = Returned 'a | Threw jsError

definition consoleError :: "string \<Rightarrow> world \<Rightarrow> world" where
  "consoleError line w = w\<lparr>console := console w @ [line]\<rparr>"

definition notificationCreate :: "(dbWrite \<Rightarrow> bool) \<Rightarrow> notification \<Rightarrow> world \<Rightarrow> unit outcome \<times> world" where
  "notificationCreate fault n w =
     (if fault (NotificationCreate n) then (Threw DatabaseError, w)
      else (Returned (), w\<lparr>notifications := notifications w @ [n]\<rparr>))"

definition notificationCreateMany ::
  "(dbWrite \<Rightarrow> bool) \<Rightarrow> notification list \<Rightarrow> world \<Rightarrow> unit outcome \<times> world" where
  "notificationCreateMany fault ns w =
     (if fault (NotificationCreateMany ns) then (Threw DatabaseError, w)
      else (Returned (), w\<lparr>notifications := notifications w @ ns\<rparr>))"

definition activityLogCreate :: "(dbWrite \<Rightarrow> bool) \<Rightarrow> activityLog \<Rightarrow> world \<Rightarrow> unit outcome \<times> world" where
  "activityLogCreate fault l w =
     (if fault (ActivityLogCreate l) then (Threw DatabaseError, w)
      else (Returned (), w\<lparr>activityLogs := activityLogs w @ [l]\<rparr>))"

section \<open>Notification and activity-log helpers\<close>

text \<open>\<open>try { await prisma.notification.create(...) } catch (error) { console.error(...) }\<close>\<close>

definition createNotification :: "(dbWrite \<Rightarrow> bool) \<Rightarrow> notification \<Rightarrow> world \<Rightarrow> unit outcome \<times> world" where
  "createNotification fault data w =
     (case notificationCreate fault data w of
        (Returned u, w') \<Rightarrow> (Returned (), w')
      | (Threw error, w') \<Rightarrow> (Returned (), consoleError ''Failed to create notification:'' w'))"

text \<open>
  \<open>createNotificationsForUsers(userIds, data)\<close>; \<open>data\<close> has no \<open>userId\<close>, so the \<open>ntfUserId\<close> of
  the argument is not read.
\<close>

definition createNotificationsForUsers ::
  "(dbWrite \<Rightarrow> bool) \<Rightarrow> string list \<Rightarrow> notification \<Rightarrow> world \<Rightarrow> unit outcome \<times> world" where
  "createNotificationsForUsers fault userIds data w =
     (case notificationCreateMany fault (map (\<lambda>u. data\<lparr>ntfUserId := u\<rparr>) userIds) w of
        (Returned u, w') \<Rightarrow> (Returned (), w')
      | (Threw error, w') \<Rightarrow> (Returned (), consoleError ''Failed to create notifications:'' w'))"

record activityLogData =
  aldTicketId :: string
  aldUserId :: "string option"
  aldAction :: string
  aldField :: "string option"
  aldOldValue :: "string option"
  aldNewValue :: "string option"
  aldMetadata :: "(string \<times> string option) list option"

text \<open>The \<open>data\<close> of \<open>prisma.activityLog.create\<close>; \<open>data.metadata || {}\<close>.\<close>

definition activityLogRow :: "activityLogData \<Rightarrow> activityLog" where
  "activityLogRow data =
     \<lparr>logTicketId = aldTicketId data, logUserId = aldUserId data,
      logAction = aldAction data, logField = aldField data,
      logOldValue = aldOldValue data, logNewValue = aldNewValue data,
      logMetadata = (case aldMetadata data of None \<Rightarrow> [] | Some m \<Rightarrow> m)\<rparr>"

definition createActivityLog ::
  "(dbWrite \<Rightarrow> bool) \<Rightarrow> activityLogData \<Rightarrow> world \<Rightarrow> unit outcome \<times> world" where
  "createActivityLog fault data w =
     (case activityLogCreate fault (activityLogRow data) w of
        (Returned u, w') \<Rightarrow> (Returned (), w')
      | (Threw error, w') \<Rightarrow> (Returned (), consoleError ''Failed to create activity log:'' w'))"

definition logTicketAction ::
  "(dbWrite \<Rightarrow> bool) \<Rightarrow> string \<Rightarrow> string option \<Rightarrow> string
     \<Rightarrow> (string \<times> string option) list option \<Rightarrow> world \<Rightarrow> unit outcome \<times> world" where
  "logTicketAction fault tid uid action metadata w =
     createActivityLog fault
       \<lparr>aldTicketId = tid, aldUserId = uid, aldAction = action, aldField = None,
        aldOldValue = None, aldNewValue = None, aldMetadata = metadata\<rparr> w"

section \<open>Ticket creation\<close>

text \<open>The JSON body of a creation request: each key is absent or a string.\<close>

record ticketBody =
  bodyTitle :: "string option"
  bodyDescription :: "string option"
  bodyPriority :: "string option"
  bodyCategoryId :: "string option"
  bodySubmitterName :: "string option"
  bodySubmitterEmail :: "string option"

text \<open>\<open>z.string().min(n)\<close> on a required key, and on an optional one.\<close>

definition minLength :: "nat \<Rightarrow> string option \<Rightarrow> bool" where
  "minLength n v = (case v of None \<Rightarrow> False | Some s \<Rightarrow> n \<le> length s)"

definition optional :: "(string \<Rightarrow> bool) \<Rightarrow> string option \<Rightarrow> bool" where
  "optional ok v = (case v of None \<Rightarrow> True | Some s \<Rightarrow> ok s)"

definition required :: "(string \<Rightarrow> bool) \<Rightarrow> string option \<Rightarrow> bool" where
  "required ok v = (case v of None \<Rightarrow> False | Some s \<Rightarrow> ok s)"

text \<open>
  \<open>createTicketSchema\<close> and \<open>createPublicTicketSchema\<close>. The check behind \<open>z.string().email()\<close>
  belongs to the validation library; it is the parameter \<open>isEmail\<close>.
\<close>

definition createTicketSchema :: "(string \<Rightarrow> bool) \<Rightarrow> ticketBody \<Rightarrow> bool" where
  "createTicketSchema isEmail body =
     (minLength 3 (bodyTitle body) \<and> minLength 10 (bodyDescription body)
      \<and> optional (\<lambda>p. p \<in> set [''LOW'', ''MEDIUM'', ''HIGH'', ''URGENT'']) (bodyPriority body)
      \<and> optional isEmail (bodySubmitterEmail body))"

definition createPublicTicketSchema :: "(string \<Rightarrow> bool) \<Rightarrow> ticketBody \<Rightarrow> bool" where
  "createPublicTicketSchema isEmail body =
     (minLength 3 (bodyTitle body) \<and> minLength 10 (bodyDescription body)
      \<and> minLength 2 (bodySubmitterName body)
      \<and> required isEmail (bodySubmitterEmail body))"

text \<open>The columns of a new ticket that the database supplies.\<close>

record generated =
  genId :: string
  genStatusId :: string

text \<open>
  \<open>prisma.ticket.create\<close> with \<open>include: { organization }\<close>. The relation is required: a row
  whose \<open>organizationId\<close> names no organization is rejected by the foreign key.
\<close>

definition ticketCreate ::
  "(dbWrite \<Rightarrow> bool) \<Rightarrow> ticket \<Rightarrow> world \<Rightarrow> (ticket \<times> organization) outcome \<times> world" where
  "ticketCreate fault row w =
     (if fault (TicketCreate row) then (Threw DatabaseError, w)
      else case find (\<lambda>org. orgId org = tktOrganizationId row) (organizations w) of
             None \<Rightarrow> (Threw DatabaseError, w)
           | Some org \<Rightarrow> (Returned (row, org), w\<lparr>tickets := tickets w @ [row]\<rparr>))"

definition sendMail :: "email \<Rightarrow> world \<Rightarrow> world" where
  "sendMail m w = w\<lparr>outbox := outbox w @ [m]\<rparr>"

text \<open>\<open>prisma.category.findFirst\<close> with \<open>where: { id: categoryId, organizationId }\<close>\<close>

definition findCategory :: "world \<Rightarrow> string option \<Rightarrow> string \<Rightarrow> category option" where
  "findCategory w oid categoryId =
     find (\<lambda>c. catId c = categoryId \<and> whereEq oid (catOrganizationId c)) (categories w)"

text \<open>\<open>prisma.userCategoryAssignment.findMany\<close> with \<open>where: { categoryId, organizationId }\<close>\<close>

definition findAssignments :: "world \<Rightarrow> string option \<Rightarrow> string \<Rightarrow> userCategoryAssignment list" where
  "findAssignments w oid categoryId =
     filter (\<lambda>a. asgCategoryId a = categoryId \<and> whereEq oid (asgOrganizationId a))
       (userCategoryAssignments w)"

text \<open>
  The auto-assignment block: \<open>assignedUserId\<close> and \<open>allAssignedUsers\<close>.
\<close>

definition autoAssign ::
  "world \<Rightarrow> string option \<Rightarrow> string option \<Rightarrow> string option \<times> user list" where
  "autoAssign w oid categoryId =
     (if truthy categoryId
      then case findAssignments w oid (orEmpty categoryId) of
             [] \<Rightarrow> (None, [])
           | a # as \<Rightarrow> (Some (asgUserId a), map asgUser (a # as))
      else (None, []))"

text \<open>\<open>v || null\<close> on an optional string (\<open>assignedUserId || null\<close>, \<open>categoryId || null\<close>).\<close>

definition orNullOpt :: "string option \<Rightarrow> string option" where
  "orNullOpt v = (if truthy v then v else None)"

text \<open>A title between double quotes, as the template literals of the messages have it.\<close>

definition quoted :: "string \<Rightarrow> string" where
  "quoted s = [CHR 0x22] @ s @ [CHR 0x22]"

text \<open>The arguments of the calls made for an assigned user.\<close>

definition assignmentMail :: "ticket \<Rightarrow> category \<Rightarrow> organization \<Rightarrow> user \<Rightarrow> email" where
  "assignmentMail t cat org assignedUser =
     TicketAssignmentEmail (usrEmail assignedUser) (tktTitle t) (tktId t) (catName cat)
       (orgSlug org) ''en''"

definition assignedNotification :: "ticket \<Rightarrow> user \<Rightarrow> notification" where
  "assignedNotification t assignedUser =
     \<lparr>ntfUserId = usrId assignedUser, ntfType = ''TICKET_ASSIGNED'',
      ntfTitle = ''Ticket Assigned'',
      ntfMessage = ''You have been assigned to ticket '' @ quoted (tktTitle t) @ ''.'',
      ntfTicketId = Some (tktId t)\<rparr>"

definition createdNotification :: "string \<Rightarrow> ticket \<Rightarrow> notification" where
  "createdNotification uid t =
     \<lparr>ntfUserId = uid, ntfType = ''TICKET_CREATED'', ntfTitle = ''Ticket Created'',
      ntfMessage = ''Your ticket '' @ quoted (tktTitle t) @ '' has been created successfully.'',
      ntfTicketId = Some (tktId t)\<rparr>"

text \<open>
  The body of the \<open>forEach\<close> over \<open>allAssignedUsers\<close> of \<open>POST /tickets\<close>: a mail and an
  in-app notification for each user. Neither call is awaited; they are taken in the order
  in which they are issued.
\<close>

definition notifyAssigned ::
  "(dbWrite \<Rightarrow> bool) \<Rightarrow> ticket \<Rightarrow> category \<Rightarrow> organization \<Rightarrow> user \<Rightarrow> world \<Rightarrow> world" where
  "notifyAssigned fault t cat org assignedUser w =
     snd (createNotification fault (assignedNotification t assignedUser)
            (sendMail (assignmentMail t cat org assignedUser) w))"

text \<open>
  \<open>POST /tickets\<close>, in the order of the handler: the category of the body, the \<open>data\<close> of
  \<open>prisma.ticket.create\<close>, and what follows the creation (activity log, notification of the
  creator, submission mail, mails and notifications of the assigned users). \<open>uid\<close> and \<open>oid\<close>
  are the constants \<open>userId\<close> and \<open>organizationId\<close> of the handler, that is \<open>req.userId!\<close> and
  \<open>req.organizationId!\<close>.
\<close>

definition bodyCategory :: "world \<Rightarrow> string option \<Rightarrow> ticketBody \<Rightarrow> category option" where
  "bodyCategory w oid body =
     (if truthy (bodyCategoryId body) then findCategory w oid (orEmpty (bodyCategoryId body))
      else None)"

definition createTicketData ::
  "generated \<Rightarrow> string \<Rightarrow> string \<Rightarrow> ticketBody \<Rightarrow> string \<Rightarrow> string option \<Rightarrow> ticket" where
  "createTicketData gen uid oid body publicToken assignedUserId =
     \<lparr>tktId = genId gen,
      tktTitle = orEmpty (bodyTitle body),
      tktDescription = orEmpty (bodyDescription body),
      tktPriority = (if truthy (bodyPriority body) then orEmpty (bodyPriority body) else ''MEDIUM''),
      tktStatusId = genStatusId gen,
      tktCategoryId = orNullOpt (bodyCategoryId body),
      tktUserId = Some uid,
      tktOrganizationId = oid,
      tktPublicToken = Some publicToken,
      tktSubmitterName = None,
      tktSubmitterEmail = None,
      tktAssignedTo = orNullOpt assignedUserId\<rparr>"

definition submissionMailToUser :: "string \<Rightarrow> ticket \<Rightarrow> organization \<Rightarrow> world \<Rightarrow> world" where
  "submissionMailToUser uid t org w =
     (case find (\<lambda>u. usrId u = uid) (users w) of
        None \<Rightarrow> w
      | Some u \<Rightarrow>
          if usrEmail u \<noteq> []
          then sendMail (TicketSubmissionEmail (usrEmail u) (tktTitle t) (tktId t)
                           (tktPublicToken t) (orgSlug org) ''en'') w
          else w)"

definition afterCreate ::
  "(dbWrite \<Rightarrow> bool) \<Rightarrow> string \<Rightarrow> category option \<Rightarrow> user list \<Rightarrow> ticket \<Rightarrow> organization
     \<Rightarrow> world \<Rightarrow> world" where
  "afterCreate fault uid category allAssignedUsers t org w1 =
     (let w2 = snd (logTicketAction fault (tktId t) (Some uid) ''TICKET_CREATED''
                      (Some [(''title'', Some (tktTitle t)),
                             (''priority'', Some (tktPriority t)),
                             (''categoryId'', tktCategoryId t)]) w1);
          w3 = snd (createNotification fault (createdNotification uid t) w2);
          w4 = submissionMailToUser uid t org w3
      in case category of
           None \<Rightarrow> w4
         | Some cat \<Rightarrow> fold (notifyAssigned fault t cat org) allAssignedUsers w4)"

definition createTicket ::
  "(string \<Rightarrow> bool) \<Rightarrow> (dbWrite \<Rightarrow> bool) \<Rightarrow> (nat \<Rightarrow> real) \<Rightarrow> generated \<Rightarrow> world
     \<Rightarrow> string \<Rightarrow> string \<Rightarrow> ticketBody \<Rightarrow> ticket reply \<times> world" where
  "createTicket isEmail fault rand gen w uid oid body =
     (if \<not> createTicketSchema isEmail body then (Message 400 ''Validation error'', w)
      else if truthy (bodyCategoryId body) \<and> bodyCategory w (Some oid) body = None
      then (Message 400 ''Category not found in this organization'', w)
      else
        let publicToken = fst (uniqueToken w rand);
            assignedUserId = fst (autoAssign w (Some oid) (bodyCategoryId body));
            allAssignedUsers = snd (autoAssign w (Some oid) (bodyCategoryId body))
        in case ticketCreate fault
                  (createTicketData gen uid oid body publicToken assignedUserId) w of
             (Threw error, w1) \<Rightarrow> (Message 500 ''Server error'', w1)
           | (Returned (t, org), w1) \<Rightarrow>
               (Json 201 t,
                afterCreate fault uid (bodyCategory w (Some oid) body) allAssignedUsers t org w1))"

text \<open>\<open>POST /tickets\<close> from \<open>verifyOrganizationAccess\<close> on.\<close>

definition postTicket ::
  "(string \<Rightarrow> bool) \<Rightarrow> (dbWrite \<Rightarrow> bool) \<Rightarrow> (nat \<Rightarrow> real) \<Rightarrow> generated \<Rightarrow> world
     \<Rightarrow> reqContext \<Rightarrow> ticketBody \<Rightarrow> ticket reply \<times> world" where
  "postTicket isEmail fault rand gen w ctx body =
     (case verifyOrganizationAccess (userOrganizations w) ctx of
        Respond code msg \<Rightarrow> (Message code msg, w)
      | Next ctx' \<Rightarrow>
          createTicket isEmail fault rand gen w (orEmpty (userId ctx'))
            (orEmpty (organizationId ctx')) body)"

text \<open>
  \<open>POST /tickets/public\<close>, in the same order. The only \<open>POST\<close> route registered before it
  is \<open>POST /\<close>, which does not match the path. Only \<open>identifyOrganization\<close> runs before the
  handler, so \<open>req.organizationId\<close> may be \<open>undefined\<close>; \<open>prisma.ticket.create\<close> then throws,
  the column being required. No in-app notification and no activity-log row is written.
\<close>

definition createPublicTicketData ::
  "generated \<Rightarrow> string \<Rightarrow> ticketBody \<Rightarrow> string \<Rightarrow> string option \<Rightarrow> ticket" where
  "createPublicTicketData gen oid body publicToken assignedUserId =
     \<lparr>tktId = genId gen,
      tktTitle = orEmpty (bodyTitle body),
      tktDescription = orEmpty (bodyDescription body),
      tktPriority = ''MEDIUM'',
      tktStatusId = genStatusId gen,
      tktCategoryId = orNullOpt (bodyCategoryId body),
      tktUserId = None,
      tktOrganizationId = oid,
      tktPublicToken = Some publicToken,
      tktSubmitterName = orNull (orEmpty (bodySubmitterName body)),
      tktSubmitterEmail = orNull (orEmpty (bodySubmitterEmail body)),
      tktAssignedTo = orNullOpt assignedUserId\<rparr>"

definition afterCreatePublic ::
  "ticketBody \<Rightarrow> string \<Rightarrow> category option \<Rightarrow> user list \<Rightarrow> ticket \<Rightarrow> organization
     \<Rightarrow> world \<Rightarrow> world" where
  "afterCreatePublic body publicToken category allAssignedUsers t org w1 =
     (let submitterEmail = orEmpty (bodySubmitterEmail body);
          w2 = (if submitterEmail \<noteq> []
                then sendMail (TicketSubmissionEmail submitterEmail (tktTitle t) (tktId t)
                                 (Some publicToken) (orgSlug org) ''en'') w1
                else w1)
      in case category of
           None \<Rightarrow> w2
         | Some cat \<Rightarrow>
             fold (\<lambda>assignedUser. sendMail (assignmentMail t cat org assignedUser))
               allAssignedUsers w2)"

definition createPublicTicket ::
  "(string \<Rightarrow> bool) \<Rightarrow> (dbWrite \<Rightarrow> bool) \<Rightarrow> (nat \<Rightarrow> real) \<Rightarrow> generated \<Rightarrow> world
     \<Rightarrow> reqContext \<Rightarrow> ticketBody \<Rightarrow> ticket reply \<times> world" where
  "createPublicTicket isEmail fault rand gen w ctx body =
     (if \<not> createPublicTicketSchema isEmail body then (Message 400 ''Validation error'', w)
      else if truthy (bodyCategoryId body) \<and> bodyCategory w (organizationId ctx) body = None
      then (Message 400 ''Category not found in this organization'', w)
      else
        let publicToken = fst (uniqueToken w rand);
            assignedUserId = fst (autoAssign w (organizationId ctx) (bodyCategoryId body));
            allAssignedUsers = snd (autoAssign w (organizationId ctx) (bodyCategoryId body))
        in case organizationId ctx of
             None \<Rightarrow> (Message 500 ''Server error'', w)
           | Some oid \<Rightarrow>
               (case ticketCreate fault
                       (createPublicTicketData gen oid body publicToken assignedUserId) w of
                  (Threw error, w1) \<Rightarrow> (Message 500 ''Server error'', w1)
                | (Returned (t, org), w1) \<Rightarrow>
                    (Json 201 t,
                     afterCreatePublic body publicToken (bodyCategory w (organizationId ctx) body)
                       allAssignedUsers t org w1)))"

definition postPublicTicket ::
  "string option \<Rightarrow> (string \<Rightarrow> bool) \<Rightarrow> (dbWrite \<Rightarrow> bool) \<Rightarrow> (nat \<Rightarrow> real) \<Rightarrow> generated
     \<Rightarrow> world \<Rightarrow> request \<Rightarrow> ticketBody \<Rightarrow> ticket reply \<times> world" where
  "postPublicTicket env isEmail fault rand gen w req body =
     (case identifyOrganization env (organizations w) req emptyContext of
        Respond code msg \<Rightarrow> (Message code msg, w)
      | Next ctx \<Rightarrow> createPublicTicket isEmail fault rand gen w ctx body)"

text \<open>What a request added to the outbox and to the notifications, read off two worlds.\<close>

definition assignmentRecipients :: "email list \<Rightarrow> string list" where
  "assignmentRecipients ms =
     concat (map (\<lambda>m. case m of TicketAssignmentEmail to title tid cat slug lang \<Rightarrow> [to]
                             | TicketSubmissionEmail to title tid tok slug lang \<Rightarrow> []) ms)"

definition newMails :: "world \<Rightarrow> world \<Rightarrow> email list" where
  "newMails w w' = drop (length (outbox w)) (outbox w')"

definition newNotifications :: "world \<Rightarrow> world \<Rightarrow> notification list" where
  "newNotifications w w' = drop (length (notifications w)) (notifications w')"

section \<open>Example data\<close>

text \<open>
  Two tenants. Acme has a member, a category with two assigned users and two statuses;
  Globex has one status and one ticket, whose tracking token is \<open>SSSSSSSS\<close>.
\<close>

definition exUser :: "string \<Rightarrow> string \<Rightarrow> user" where
  "exUser i n = \<lparr>usrId = i, usrEmail = n @ ''@example.test'', usrName = n\<rparr>"

definition exStatus :: "string \<Rightarrow> string \<Rightarrow> int \<Rightarrow> string \<Rightarrow> ticketStatus" where
  "exStatus i n k oid =
     \<lparr>stsId = i, stsName = n, stsNameAr = None, stsColor = None, stsOrder = k,
      stsOrganizationId = oid\<rparr>"

definition exTicket :: ticket where
  "exTicket =
     \<lparr>tktId = ''t0'', tktTitle = ''Old ticket'', tktDescription = ''Created last year'',
      tktPriority = ''LOW'', tktStatusId = ''s2'', tktCategoryId = None, tktUserId = None,
      tktOrganizationId = ''o2'', tktPublicToken = Some ''SSSSSSSS'',
      tktSubmitterName = Some ''Zed'', tktSubmitterEmail = Some ''zed@example.test'',
      tktAssignedTo = None\<rparr>"

definition exWorld :: world where
  "exWorld =
     \<lparr>organizations =
        [\<lparr>orgId = ''o1'', orgName = ''Acme'', orgSlug = ''acme'', orgSubdomain = None\<rparr>,
         \<lparr>orgId = ''o2'', orgName = ''Globex'', orgSlug = ''globex'', orgSubdomain = None\<rparr>],
      userOrganizations =
        [\<lparr>memberUserId = ''u1'', memberOrganizationId = ''o1'', memberRole = ''MEMBER''\<rparr>],
      users = [exUser ''u1'' ''ann'', exUser ''u2'' ''bob'', exUser ''u3'' ''cy''],
      categories = [\<lparr>catId = ''c1'', catName = ''Hardware'', catOrganizationId = ''o1''\<rparr>],
      userCategoryAssignments =
        [\<lparr>asgUserId = ''u2'', asgCategoryId = ''c1'', asgOrganizationId = ''o1'',
          asgUser = exUser ''u2'' ''bob''\<rparr>,
         \<lparr>asgUserId = ''u3'', asgCategoryId = ''c1'', asgOrganizationId = ''o1'',
          asgUser = exUser ''u3'' ''cy''\<rparr>],
      tickets = [exTicket],
      comments = [],
      ticketStatuses =
        [exStatus ''s1'' ''Open'' 0 ''o1'', exStatus ''s2'' ''Open'' 0 ''o2'',
         exStatus ''s3'' ''Closed'' 1 ''o1''],
      notifications = [], activityLogs = [], outbox = [], console = []\<rparr>"

text \<open>A request to the main host that names Acme in the query and carries a token.\<close>

definition exRequest :: request where
  "exRequest =
     \<lparr>hostHeader = Some ''app.example.test'', paramOrgSlug = None, queryOrg = Some ''ACME'',
      headerOrgSlug = None, queryToken = Some ''SSSSSSSS'', authorization = None\<rparr>"

definition exEnv :: "string option" where
  "exEnv = Some ''app.example.test''"

text \<open>The context of \<open>ann\<close>, a member of Acme, after the middleware chain.\<close>

definition exContext :: reqContext where
  "exContext =
     \<lparr>userId = Some ''u1'', userRole = Some ''USER'', organizationId = Some ''o1'',
      organization = None\<rparr>"

text \<open>
  Values of \<open>Math.random()\<close>: the first eight are \<open>1/2\<close> (the token \<open>SSSSSSSS\<close>), the
  others \<open>0\<close> (the token \<open>AAAAAAAA\<close>).
\<close>

definition exRand :: "nat \<Rightarrow> real" where
  "exRand k = (if k < 8 then 1 / 2 else 0)"

definition exBody :: ticketBody where
  "exBody =
     \<lparr>bodyTitle = Some ''Printer broken'',
      bodyDescription = Some ''It will not turn on at all today'',
      bodyPriority = None, bodyCategoryId = Some ''c1'',
      bodySubmitterName = Some ''Sam'', bodySubmitterEmail = Some ''sam@x.com''\<rparr>"

definition exGenerated :: generated where
  "exGenerated = \<lparr>genId = ''t1'', genStatusId = ''s1''\<rparr>"

text \<open>A stand-in for the mail-address check: the address contains \<open>@\<close>.\<close>

definition exIsEmail :: "string \<Rightarrow> bool" where
  "exIsEmail s = (CHR ''@'' \<in> set s)"



definition exVerify :: "string \<Rightarrow> jwtPayload option" where
  "exVerify token =
     (if token = ''ann-token''
      then Some \<lparr>jwtUserId = ''u1'', jwtRole = ''USER'', jwtOrganizationId = None\<rparr>
      else None)"


text \<open>A gateway on which every write fails but the creation of a ticket.\<close>

definition exFault :: "dbWrite \<Rightarrow> bool" where
  "exFault x = (case x of TicketCreate row \<Rightarrow> False | _ \<Rightarrow> True)"

section \<open>Properties of the string layer\<close>

lemma set_stripBoth: "set (stripBoth P s) \<subseteq> set s"
proof -
  have "set (dropWhile P (rev (dropWhile P s))) \<subseteq> set (rev (dropWhile P s))"
    by (rule set_dropWhileD[THEN subsetI])
  also have "\<dots> \<subseteq> set s"
    using set_dropWhileD[of _ P s] by auto
  finally show ?thesis by (simp add: stripBoth_def)
qed

lemma stripBoth_ends:
  assumes "stripBoth P s \<noteq> []"
  shows "\<not> P (hd (stripBoth P s)) \<and> \<not> P (last (stripBoth P s))"
proof -
  define ys where "ys = dropWhile P s"
  define zs where "zs = dropWhile P (rev ys)"
  have res: "stripBoth P s = rev zs" by (simp add: stripBoth_def ys_def zs_def)
  with assms have zs: "zs \<noteq> []" by simp
  then have ys: "ys \<noteq> []" by (auto simp: zs_def)
  have l: "\<not> P (hd zs)" using zs unfolding zs_def by (rule hd_dropWhile)
  have "rev ys = takeWhile P (rev ys) @ zs" by (simp add: zs_def)
  then have "ys = rev zs @ rev (takeWhile P (rev ys))"
    by (metis rev_append rev_rev_ident)
  then have "hd ys = hd (rev zs)" using zs by (metis hd_append2 rev_is_Nil_conv)
  moreover have "\<not> P (hd ys)" using ys unfolding ys_def by (rule hd_dropWhile)
  ultimately show ?thesis using l zs by (simp add: res last_rev)
qed

lemma dropWhile_keep: "xs \<noteq> [] \<Longrightarrow> \<not> P (hd xs) \<Longrightarrow> dropWhile P xs = xs"
  by (cases xs) auto

lemma stripBoth_id:
  assumes "s = [] \<or> (\<not> P (hd s) \<and> \<not> P (last s))"
  shows "stripBoth P s = s"
proof (cases "s = []")
  case True
  then show ?thesis by (simp add: stripBoth_def)
next
  case False
  with assms have h: "\<not> P (hd s)" and l: "\<not> P (last s)" by auto
  have a: "dropWhile P s = s" using False h by (rule dropWhile_keep)
  have "\<not> P (hd (rev s))" using False l by (simp add: hd_rev)
  moreover have "rev s \<noteq> []" using False by simp
  ultimately have "dropWhile P (rev s) = rev s" by (intro dropWhile_keep)
  with a show ?thesis by (simp add: stripBoth_def)
qed

lemma slugChar_hyphen: "isSlugChar CHR ''-''"
  by (simp add: isSlugChar_def)

lemma slugChar_not_whitespace: "isSlugChar c \<Longrightarrow> \<not> isWhitespace c"
  by (auto simp: isSlugChar_def isWhitespace_def Let_def)

lemma slugChar_lower: "isSlugChar c \<Longrightarrow> lowerChar c = c"
  by (auto simp: isSlugChar_def lowerChar_def Let_def)

lemma normalizeSlug_chars: "c \<in> set (normalizeSlug s) \<Longrightarrow> isSlugChar c"
proof -
  assume "c \<in> set (normalizeSlug s)"
  then have "c \<in> set (replaceNonSlug (toLowerCase (trim s)))"
    using set_stripBoth by (auto simp: normalizeSlug_def stripHyphens_def)
  then show "isSlugChar c"
    by (auto simp: replaceNonSlug_def slugChar_hyphen)
qed

lemma normalizeSlug_ends:
  "normalizeSlug s \<noteq> [] \<Longrightarrow> hd (normalizeSlug s) \<noteq> CHR ''-'' \<and> last (normalizeSlug s) \<noteq> CHR ''-''"
  unfolding normalizeSlug_def stripHyphens_def by (rule stripBoth_ends)

lemma normalizeSlug_fixed:
  assumes chars: "\<forall>c \<in> set t. isSlugChar c"
    and ends: "t = [] \<or> (hd t \<noteq> CHR ''-'' \<and> last t \<noteq> CHR ''-'')"
  shows "normalizeSlug t = t"
proof -
  have "t = [] \<or> (\<not> isWhitespace (hd t) \<and> \<not> isWhitespace (last t))"
    using chars slugChar_not_whitespace by (cases "t = []") auto
  then have 1: "trim t = t" unfolding trim_def by (rule stripBoth_id)
  have 2: "toLowerCase t = t"
    using chars by (simp add: toLowerCase_def slugChar_lower map_idI)
  have 3: "replaceNonSlug t = t"
    using chars by (simp add: replaceNonSlug_def map_idI)
  have 4: "stripHyphens t = t"
    unfolding stripHyphens_def using ends by (intro stripBoth_id) simp
  show ?thesis by (simp add: normalizeSlug_def 1 2 3 4)
qed

section \<open>Claims on slug normalisation and tenant resolution\<close>

text \<open>
  C7. For every raw slug \<open>s\<close>, normalising twice gives the same as normalising once, the
  normalised slug contains only characters of \<open>[a-z0-9-]\<close>, and it neither starts nor ends
  with a hyphen.
\<close>

theorem normalizeSlug_idempotent:
  "normalizeSlug (normalizeSlug s) = normalizeSlug s
   \<and> (\<forall>c \<in> set (normalizeSlug s). isSlugChar c)
   \<and> (normalizeSlug s \<noteq> [] \<longrightarrow>
        hd (normalizeSlug s) \<noteq> CHR ''-'' \<and> last (normalizeSlug s) \<noteq> CHR ''-'')"
proof -
  have chars: "\<forall>c \<in> set (normalizeSlug s). isSlugChar c"
    using normalizeSlug_chars by blast
  have ends: "normalizeSlug s \<noteq> [] \<longrightarrow>
      hd (normalizeSlug s) \<noteq> CHR ''-'' \<and> last (normalizeSlug s) \<noteq> CHR ''-''"
    using normalizeSlug_ends by blast
  have "normalizeSlug (normalizeSlug s) = normalizeSlug s"
    using chars ends by (intro normalizeSlug_fixed) auto
  with chars ends show ?thesis by blast
qed

theorem normalizeSlug_idempotent_witness:
  "normalizeSlug ''  -ACME Corp!-  '' = ''acme-corp''
   \<and> normalizeSlug ''acme-corp'' = ''acme-corp''
   \<and> list_all isSlugChar ''acme-corp''
   \<and> hd ''acme-corp'' \<noteq> CHR ''-'' \<and> last ''acme-corp'' \<noteq> CHR ''-''"
proof -
  have e: "normalizeSlug ''  -ACME Corp!-  '' = ''acme-corp''" by code_simp
  from normalizeSlug_idempotent[of "''  -ACME Corp!-  ''"] show ?thesis
    unfolding e list_all_iff by simp
qed

text \<open>
  C6. When the host of the request is the configured main-application host (the two are
  compared after lower-casing and dropping the port, which covers equal header values), the
  subdomain signal selects nothing, whatever the first label of the host is, and the
  candidate is the first non-empty one of path parameter, query parameter \<open>org\<close> and header
  \<open>X-Organization-Slug\<close>, in that order.
\<close>

theorem main_host_skips_subdomain:
  assumes "hostOf (hostHeader req) = hostOf env"
  shows "subdomainSignal env req = None
         \<and> candidateSlug env req =
             (if truthy (paramOrgSlug req) then paramOrgSlug req
              else if truthy (queryOrg req) then queryOrg req
              else if truthy (headerOrgSlug req) then headerOrgSlug req
              else None)"
proof -
  have sig: "subdomainSignal env req = None"
  proof (cases "hostOf env = []")
    case True
    with assms have "subdomainOf req = []"
      by (simp add: subdomainOf_def splitFirst_def)
    then show ?thesis by (simp add: subdomainSignal_def)
  next
    case False
    with assms have "isMainAppHost env req" by (simp add: isMainAppHost_def)
    then show ?thesis by (simp add: subdomainSignal_def)
  qed
  show ?thesis
    unfolding candidateSlug_def sig
    by (simp add: orElse_def truthy_def)
qed

theorem main_host_skips_subdomain_witness:
  "hostOf (hostHeader \<lparr>hostHeader = Some ''Acme.Example.com:8080'', paramOrgSlug = None,
        queryOrg = Some ''globex'', headerOrgSlug = Some ''initech'', queryToken = None, authorization = None\<rparr>)
     = hostOf (Some ''acme.example.com'')
   \<and> subdomainSignal (Some ''acme.example.com'')
        \<lparr>hostHeader = Some ''Acme.Example.com:8080'', paramOrgSlug = None,
         queryOrg = Some ''globex'', headerOrgSlug = Some ''initech'', queryToken = None, authorization = None\<rparr> = None
   \<and> candidateSlug (Some ''acme.example.com'')
        \<lparr>hostHeader = Some ''Acme.Example.com:8080'', paramOrgSlug = None,
         queryOrg = Some ''globex'', headerOrgSlug = Some ''initech'', queryToken = None, authorization = None\<rparr> = Some ''globex''"
proof -
  have h: "hostOf (hostHeader \<lparr>hostHeader = Some ''Acme.Example.com:8080'', paramOrgSlug = None,
        queryOrg = Some ''globex'', headerOrgSlug = Some ''initech'', queryToken = None, authorization = None\<rparr>)
     = hostOf (Some ''acme.example.com'')"
    by code_simp
  from main_host_skips_subdomain[OF h] h show ?thesis
    by (simp add: truthy_def)
qed

section \<open>Claims on access control\<close>

text \<open>
  C2, as the code has it. For an actor with global role ADMIN and a resolved tenant,
  \<open>requireOrgAdmin\<close> lets the request through exactly when a membership row exists for
  (actor, tenant), whatever the role in that row; with no membership row it answers 403.
\<close>

theorem requireOrgAdmin_global_admin:
  assumes "truthy (userId ctx)" and "truthy (organizationId ctx)"
    and "userRole ctx = Some ''ADMIN''"
  shows "requireOrgAdmin ms ctx =
           (case findMembership ms (orEmpty (userId ctx)) (orEmpty (organizationId ctx)) of
              None \<Rightarrow> Respond 403 ''Organization admin access required''
            | Some userOrg \<Rightarrow> Next ctx)"
  using assms by (simp add: requireOrgAdmin_def split: option.splits)

theorem requireOrgAdmin_global_admin_witness:
  "requireOrgAdmin
     [\<lparr>memberUserId = ''u1'', memberOrganizationId = ''o1'', memberRole = ''MEMBER''\<rparr>]
     \<lparr>userId = Some ''u1'', userRole = Some ''ADMIN'', organizationId = Some ''o1'',
      organization = None\<rparr>
   = Next \<lparr>userId = Some ''u1'', userRole = Some ''ADMIN'', organizationId = Some ''o1'',
      organization = None\<rparr>"
proof -
  let ?ctx = "\<lparr>userId = Some ''u1'', userRole = Some ''ADMIN'', organizationId = Some ''o1'',
      organization = None\<rparr>"
  have a: "truthy (userId ?ctx)" by (simp add: truthy_def)
  have b: "truthy (organizationId ?ctx)" by (simp add: truthy_def)
  have c: "userRole ?ctx = Some ''ADMIN''" by simp
  from requireOrgAdmin_global_admin[OF a b c] show ?thesis
    by (simp add: findMembership_def orEmpty_def)
qed

text \<open>
  C2, as the claim states it, fails: a platform ADMIN with no membership row in the tenant
  is answered 403.
\<close>

theorem requireOrgAdmin_admin_without_membership:
  "requireOrgAdmin []
     \<lparr>userId = Some ''u1'', userRole = Some ''ADMIN'', organizationId = Some ''o1'',
      organization = None\<rparr>
   = Respond 403 ''Organization admin access required''"
  by (simp add: requireOrgAdmin_def truthy_def findMembership_def)

text \<open>
  C3. For an actor and a resolved tenant, \<open>verifyOrganizationAccess\<close> answers 403 when no
  membership row exists for (actor, tenant) and lets the request through when one exists;
  neither the global role nor the role in the row is read.
\<close>

theorem verifyOrganizationAccess_presence_only:
  assumes "truthy (userId ctx)" and "truthy (organizationId ctx)"
  shows "verifyOrganizationAccess ms ctx =
           (if findMembership ms (orEmpty (userId ctx)) (orEmpty (organizationId ctx)) = None
            then Respond 403 ''Access denied: User does not belong to this organization''
            else Next ctx)"
  using assms by (simp add: verifyOrganizationAccess_def split: option.splits)

theorem verifyOrganizationAccess_presence_only_witness:
  "verifyOrganizationAccess
     [\<lparr>memberUserId = ''u2'', memberOrganizationId = ''o1'', memberRole = ''ADMIN''\<rparr>]
     \<lparr>userId = Some ''u1'', userRole = Some ''ADMIN'', organizationId = Some ''o1'',
      organization = None\<rparr>
   = Respond 403 ''Access denied: User does not belong to this organization''"
proof -
  let ?ctx = "\<lparr>userId = Some ''u1'', userRole = Some ''ADMIN'', organizationId = Some ''o1'',
      organization = None\<rparr>"
  have a: "truthy (userId ?ctx)" by (simp add: truthy_def)
  have b: "truthy (organizationId ?ctx)" by (simp add: truthy_def)
  from verifyOrganizationAccess_presence_only[OF a b] show ?thesis
    by (simp add: findMembership_def orEmpty_def)
qed

section \<open>Claims on tracking tokens\<close>

declare tokenLoop.simps [simp del]

lemma chars_length: "length chars = 32"
  by (simp add: chars_def)

lemma charAt_chars:
  assumes "0 \<le> r" and "r < 1"
  shows "charAt chars \<lfloor>r * real (length chars)\<rfloor> = [chars ! nat \<lfloor>r * real (length chars)\<rfloor>]
         \<and> nat \<lfloor>r * real (length chars)\<rfloor> < length chars"
proof -
  have lo: "0 \<le> \<lfloor>r * 32\<rfloor>" using assms by simp
  have "r * 32 < 32" using assms by simp
  then have hi: "\<lfloor>r * 32\<rfloor> < 32" by (simp add: floor_less_iff)
  from lo hi have n: "nat \<lfloor>r * 32\<rfloor> < 32" by linarith
  have c: "charAt chars \<lfloor>r * 32\<rfloor> = [chars ! nat \<lfloor>r * 32\<rfloor>]"
    unfolding charAt_def chars_length using lo hi by (simp only: if_True simp_thms of_nat_numeral)
  from n c show ?thesis by (simp add: chars_length)
qed

lemma generateSimpleToken_map:
  assumes "\<forall>k. 0 \<le> rand k \<and> rand k < 1"
  shows "generateSimpleToken rand pos =
           map (\<lambda>i. chars ! nat \<lfloor>rand (pos + i) * real (length chars)\<rfloor>) [0..<8]"
proof -
  have "map (\<lambda>i. charAt chars \<lfloor>rand (pos + i) * real (length chars)\<rfloor>) [0..<8]
        = map (\<lambda>i. [chars ! nat \<lfloor>rand (pos + i) * real (length chars)\<rfloor>]) [0..<8]"
    using assms charAt_chars by (intro map_cong) auto
  then show ?thesis
    unfolding generateSimpleToken_def by (simp only: concat_map_singleton)
qed

lemma generateSimpleToken_shape:
  assumes "\<forall>k. 0 \<le> rand k \<and> rand k < 1"
  shows "length (generateSimpleToken rand pos) = 8 \<and> set (generateSimpleToken rand pos) \<subseteq> set chars"
proof -
  have "\<forall>i. chars ! nat \<lfloor>rand (pos + i) * real (length chars)\<rfloor> \<in> set chars"
    using assms charAt_chars by (metis nth_mem)
  then show ?thesis
    unfolding generateSimpleToken_map[OF assms] by auto
qed

lemma tokenLoop_result:
  assumes "attempts \<le> 10" and "pos = 8 * (attempts + 1)"
    and "publicToken = generateSimpleToken rand (8 * attempts)"
  shows "snd (tokenLoop w rand pos publicToken attempts) \<le> 10
         \<and> fst (tokenLoop w rand pos publicToken attempts)
             = generateSimpleToken rand (8 * snd (tokenLoop w rand pos publicToken attempts))
         \<and> (tokenExists w (fst (tokenLoop w rand pos publicToken attempts)) \<noteq> None
              \<longrightarrow> snd (tokenLoop w rand pos publicToken attempts) = 10)"
  using assms
proof (induction w rand pos publicToken attempts rule: tokenLoop.induct)
  case (1 w rand pos publicToken attempts)
  show ?case
  proof (cases "tokenExists w publicToken \<noteq> None \<and> attempts < 10")
    case True
    have "attempts + 1 \<le> 10" using True by simp
    moreover have "pos + 8 = 8 * (attempts + 1 + 1)" using "1.prems" by simp
    moreover have "generateSimpleToken rand pos = generateSimpleToken rand (8 * (attempts + 1))"
      using "1.prems" by simp
    ultimately show ?thesis
      using "1.IH"[OF True] True by (subst (1 2 3 4 5) tokenLoop.simps) simp
  next
    case False
    then show ?thesis
      using "1.prems" by (subst (1 2 3 4 5) tokenLoop.simps) auto
  qed
qed

text \<open>
  C8. Whenever \<open>Math.random()\<close> keeps to its range \<open>[0, 1)\<close>, token generation returns an
  8-character string over the 32-symbol alphabet \<open>ABCDEFGHJKLMNPQRSTUVWXYZ23456789\<close>; it
  regenerates at most 10 times, always returns (the function is total and has no error
  result), and what it returns is the token generated last; when that token still
  collides with a stored ticket, exactly 10 regenerations have been made.
\<close>

theorem uniqueToken_shape:
  assumes "\<forall>k. 0 \<le> rand k \<and> rand k < 1"
  shows "length chars = 32
         \<and> length (fst (uniqueToken w rand)) = 8
         \<and> set (fst (uniqueToken w rand)) \<subseteq> set chars
         \<and> snd (uniqueToken w rand) \<le> 10
         \<and> fst (uniqueToken w rand) = generateSimpleToken rand (8 * snd (uniqueToken w rand))
         \<and> (tokenExists w (fst (uniqueToken w rand)) \<noteq> None \<longrightarrow> snd (uniqueToken w rand) = 10)"
proof -
  have r: "snd (uniqueToken w rand) \<le> 10
         \<and> fst (uniqueToken w rand) = generateSimpleToken rand (8 * snd (uniqueToken w rand))
         \<and> (tokenExists w (fst (uniqueToken w rand)) \<noteq> None \<longrightarrow> snd (uniqueToken w rand) = 10)"
    unfolding uniqueToken_def by (rule tokenLoop_result) simp_all
  then have "fst (uniqueToken w rand) = generateSimpleToken rand (8 * snd (uniqueToken w rand))"
    by blast
  with generateSimpleToken_shape[OF assms, of "8 * snd (uniqueToken w rand)"]
  have "length (fst (uniqueToken w rand)) = 8 \<and> set (fst (uniqueToken w rand)) \<subseteq> set chars"
    by simp
  with r chars_length show ?thesis by blast
qed


theorem uniqueToken_shape_witness:
  "uniqueToken exWorld (\<lambda>k. 1 / 2) = (''SSSSSSSS'', 10)
   \<and> tokenExists exWorld ''SSSSSSSS'' = Some exTicket
   \<and> set ''SSSSSSSS'' \<subseteq> set chars"
proof -
  have h: "\<forall>k. 0 \<le> (\<lambda>k::nat. 1 / 2 :: real) k \<and> (\<lambda>k::nat. 1 / 2 :: real) k < 1" by simp
  have e: "uniqueToken exWorld (\<lambda>k. 1 / 2) = (''SSSSSSSS'', 10)" by code_simp
  have t: "tokenExists exWorld ''SSSSSSSS'' = Some exTicket" by code_simp
  from uniqueToken_shape[OF h, of exWorld]
  have "set (fst (uniqueToken exWorld (\<lambda>k. 1 / 2))) \<subseteq> set chars" by blast
  then have "set ''SSSSSSSS'' \<subseteq> set chars" unfolding e fst_conv .
  with e t show ?thesis by blast
qed

section \<open>Claims on ticket statuses\<close>

lemma countTickets_pos:
  "countTickets w s > 0 \<longleftrightarrow> (\<exists>t \<in> set (tickets w). tktStatusId t = stsId s)"
  unfolding countTickets_def length_greater_0_conv by (auto simp: filter_empty_conv)

lemma findStatus_Some: "findStatus w ctx sid = Some s \<Longrightarrow> stsId s = sid"
  by (auto simp: findStatus_def find_Some_iff)

text \<open>
  C9. Deleting a status of the organization that at least one ticket references answers
  400 with the conflict message and leaves every table as it was; the deletion answers
  with success only when the status exists in the organization and no ticket references
  it, and then the status is removed.
\<close>

theorem deleteStatus_in_use:
  "(findStatus w ctx sid \<noteq> None \<and> (\<exists>t \<in> set (tickets w). tktStatusId t = sid) \<longrightarrow>
      deleteStatus w ctx sid =
        (Message 400
           ''Cannot delete status: some tickets use it. Reassign those tickets to another status first.'',
         w))
   \<and> (fst (deleteStatus w ctx sid) = Message 200 ''Ticket status deleted successfully'' \<longrightarrow>
        findStatus w ctx sid \<noteq> None \<and> (\<forall>t \<in> set (tickets w). tktStatusId t \<noteq> sid)
        \<and> ticketStatuses (snd (deleteStatus w ctx sid))
            = filter (\<lambda>s. stsId s \<noteq> sid) (ticketStatuses w))"
proof (cases "findStatus w ctx sid")
  case None
  then show ?thesis by (simp add: deleteStatus_def)
next
  case (Some s)
  then have "stsId s = sid" by (rule findStatus_Some)
  then have "countTickets w s > 0 \<longleftrightarrow> (\<exists>t \<in> set (tickets w). tktStatusId t = sid)"
    by (simp add: countTickets_pos)
  with Some show ?thesis by (auto simp: deleteStatus_def)
qed

theorem deleteStatus_in_use_witness:
  "deleteStatus exWorld (exContext\<lparr>organizationId := Some ''o2''\<rparr>) ''s2'' =
     (Message 400
        ''Cannot delete status: some tickets use it. Reassign those tickets to another status first.'',
      exWorld)
   \<and> fst (deleteStatus exWorld exContext ''s1'') = Message 200 ''Ticket status deleted successfully''
   \<and> map stsId (ticketStatuses (snd (deleteStatus exWorld exContext ''s1''))) = [''s2'', ''s3'']"
proof -
  have h: "findStatus exWorld (exContext\<lparr>organizationId := Some ''o2''\<rparr>) ''s2'' \<noteq> None
           \<and> (\<exists>t \<in> set (tickets exWorld). tktStatusId t = ''s2'')"
    by code_simp
  have a: "fst (deleteStatus exWorld exContext ''s1'') = Message 200 ''Ticket status deleted successfully''"
    by code_simp
  have b: "map stsId (filter (\<lambda>s. stsId s \<noteq> ''s1'') (ticketStatuses exWorld)) = [''s2'', ''s3'']"
    by code_simp
  from deleteStatus_in_use[of exWorld "exContext\<lparr>organizationId := Some ''o2''\<rparr>" "''s2''"]
    deleteStatus_in_use[of exWorld exContext "''s1''"] h a b
  show ?thesis by simp
qed

section \<open>Claims on tenant scoping of reads\<close>




lemma getTickets_dispatch:
  "getTickets verify env w req seg =
     (if seg = [] then None else Some (ticketByIdRoute verify env w req seg))"
  by (simp add: getTickets_def getTicketsRoutes_def matchesSegment_def toLowerCase_def)

lemma getTickets_public_unauthenticated:
  assumes "authorization req = None"
  shows "getTickets verify env w req ''public'' = Some (Message 401 ''Authentication required'')"
  using assms
  by (simp add: getTickets_dispatch ticketByIdRoute_def ticketChain_def andThen_def
        authenticate_def bearerToken_def truthy_def)





section \<open>Effects of the helpers and of ticket creation\<close>

lemma createNotification_world:
  "createNotification fault data w =
     (Returned (), if fault (NotificationCreate data)
                   then w\<lparr>console := console w @ [''Failed to create notification:'']\<rparr>
                   else w\<lparr>notifications := notifications w @ [data]\<rparr>)"
  by (simp add: createNotification_def notificationCreate_def consoleError_def)

lemma createNotificationsForUsers_world:
  "createNotificationsForUsers fault userIds data w =
     (Returned (), if fault (NotificationCreateMany (map (\<lambda>u. data\<lparr>ntfUserId := u\<rparr>) userIds))
                   then w\<lparr>console := console w @ [''Failed to create notifications:'']\<rparr>
                   else w\<lparr>notifications :=
                            notifications w @ map (\<lambda>u. data\<lparr>ntfUserId := u\<rparr>) userIds\<rparr>)"
  by (simp add: createNotificationsForUsers_def notificationCreateMany_def consoleError_def)

lemma createActivityLog_world:
  "createActivityLog fault data w =
     (Returned (), if fault (ActivityLogCreate (activityLogRow data))
                   then w\<lparr>console := console w @ [''Failed to create activity log:'']\<rparr>
                   else w\<lparr>activityLogs := activityLogs w @ [activityLogRow data]\<rparr>)"
  by (simp add: createActivityLog_def activityLogCreate_def consoleError_def)

lemma logTicketAction_fields:
  "outbox (snd (logTicketAction fault tid uid action metadata w)) = outbox w"
  "notifications (snd (logTicketAction fault tid uid action metadata w)) = notifications w"
  "users (snd (logTicketAction fault tid uid action metadata w)) = users w"
  "tickets (snd (logTicketAction fault tid uid action metadata w)) = tickets w"
  by (simp_all add: logTicketAction_def createActivityLog_world)

lemma createNotification_fields:
  "outbox (snd (createNotification fault data w)) = outbox w"
  "notifications (snd (createNotification fault data w))
     = notifications w @ (if fault (NotificationCreate data) then [] else [data])"
  "users (snd (createNotification fault data w)) = users w"
  "tickets (snd (createNotification fault data w)) = tickets w"
  by (simp_all add: createNotification_world)

lemma sendMail_fields:
  "outbox (sendMail m w) = outbox w @ [m]"
  "notifications (sendMail m w) = notifications w"
  "users (sendMail m w) = users w"
  "tickets (sendMail m w) = tickets w"
  by (simp_all add: sendMail_def)

lemma fold_notifyAssigned_fields:
  "outbox (fold (notifyAssigned fault t cat org) us w) = outbox w @ map (assignmentMail t cat org) us"
  "notifications (fold (notifyAssigned fault t cat org) us w)
     = notifications w
       @ map (assignedNotification t)
           (filter (\<lambda>u. \<not> fault (NotificationCreate (assignedNotification t u))) us)"
  "tickets (fold (notifyAssigned fault t cat org) us w) = tickets w"
  by (induction us arbitrary: w)
     (simp_all add: notifyAssigned_def createNotification_fields sendMail_fields)

lemma fold_sendMail_fields:
  "outbox (fold (\<lambda>u. sendMail (f u)) us w) = outbox w @ map f us"
  "notifications (fold (\<lambda>u. sendMail (f u)) us w) = notifications w"
  "tickets (fold (\<lambda>u. sendMail (f u)) us w) = tickets w"
  by (induction us arbitrary: w) (simp_all add: sendMail_fields)

lemma ticketCreate_Returned:
  assumes "ticketCreate fault row w = (Returned (t, org), w1)"
  shows "t = row" and "w1 = w\<lparr>tickets := tickets w @ [row]\<rparr>"
    and "\<not> fault (TicketCreate row)"
  using assms by (auto simp: ticketCreate_def split: if_splits option.splits)

lemma ticketCreate_Threw:
  assumes "ticketCreate fault row w = (Threw e, w1)"
  shows "w1 = w"
  using assms by (auto simp: ticketCreate_def split: if_splits option.splits)

lemma assignmentRecipients_append:
  "assignmentRecipients (xs @ ys) = assignmentRecipients xs @ assignmentRecipients ys"
  by (simp add: assignmentRecipients_def)

lemma assignmentRecipients_mails:
  "assignmentRecipients (map (assignmentMail t cat org) us) = map usrEmail us"
  by (induction us) (simp_all add: assignmentRecipients_def assignmentMail_def)


lemma autoAssign_falsy: "\<not> truthy categoryId \<Longrightarrow> autoAssign w oid categoryId = (None, [])"
  by (simp add: autoAssign_def)

lemma submissionMailToUser_fields:
  "\<exists>ms. outbox (submissionMailToUser uid t org w) = outbox w @ ms \<and> assignmentRecipients ms = []"
  "notifications (submissionMailToUser uid t org w) = notifications w"
  "tickets (submissionMailToUser uid t org w) = tickets w"
  by (simp_all add: submissionMailToUser_def sendMail_fields assignmentRecipients_def
               split: option.splits)

lemma filter_assigned_map:
  "filter (\<lambda>n. ntfType n = ''TICKET_ASSIGNED'') (map (assignedNotification t) us)
     = map (assignedNotification t) us"
  by (induction us) (simp_all add: assignedNotification_def)

lemma afterCreate_fields:
  assumes "category = None \<Longrightarrow> us = []"
  shows "\<exists>ms. outbox (afterCreate fault uid category us t org w1) = outbox w1 @ ms
              \<and> assignmentRecipients ms = map usrEmail us"
    and "\<exists>ns. notifications (afterCreate fault uid category us t org w1) = notifications w1 @ ns
              \<and> filter (\<lambda>n. ntfType n = ''TICKET_ASSIGNED'') ns
                  = map (assignedNotification t)
                      (filter (\<lambda>u. \<not> fault (NotificationCreate (assignedNotification t u))) us)"
    and "tickets (afterCreate fault uid category us t org w1) = tickets w1"
proof -
  define w3 where "w3 = snd (createNotification fault (createdNotification uid t)
      (snd (logTicketAction fault (tktId t) (Some uid) ''TICKET_CREATED''
                      (Some [(''title'', Some (tktTitle t)),
                             (''priority'', Some (tktPriority t)),
                             (''categoryId'', tktCategoryId t)]) w1)))"
  define w4 where "w4 = submissionMailToUser uid t org w3"
  have ac: "afterCreate fault uid c us' t org w1 =
      (case c of None \<Rightarrow> w4 | Some cat \<Rightarrow> fold (notifyAssigned fault t cat org) us' w4)"
    for c us'
    unfolding afterCreate_def Let_def w4_def w3_def by (rule refl)
  have o3: "outbox w3 = outbox w1"
    and n3: "notifications w3 = notifications w1
               @ (if fault (NotificationCreate (createdNotification uid t)) then []
                  else [createdNotification uid t])"
    and t3: "tickets w3 = tickets w1"
    by (simp_all add: w3_def createNotification_fields logTicketAction_fields)
  obtain ms where o4: "outbox w4 = outbox w1 @ ms" and ms: "assignmentRecipients ms = []"
    using submissionMailToUser_fields(1)[of uid t org w3] unfolding w4_def o3 by blast
  have n4: "notifications w4 = notifications w3" and t4: "tickets w4 = tickets w1"
    by (simp_all add: w4_def submissionMailToUser_fields t3)
  have c: "ntfType (createdNotification uid t) \<noteq> ''TICKET_ASSIGNED''"
    by (simp add: createdNotification_def)
  show "\<exists>ms. outbox (afterCreate fault uid category us t org w1) = outbox w1 @ ms
              \<and> assignmentRecipients ms = map usrEmail us"
  proof (cases category)
    case None
    have "afterCreate fault uid category us t org w1 = w4" by (simp add: ac None)
    moreover have "us = []" using assms None by simp
    ultimately show ?thesis using o4 ms by simp
  next
    case (Some cat)
    have "outbox (afterCreate fault uid category us t org w1)
            = outbox w1 @ (ms @ map (assignmentMail t cat org) us)"
      by (simp add: ac Some fold_notifyAssigned_fields o4)
    moreover have "assignmentRecipients (ms @ map (assignmentMail t cat org) us) = map usrEmail us"
      by (simp add: assignmentRecipients_append assignmentRecipients_mails ms)
    ultimately show ?thesis by blast
  qed
  show "\<exists>ns. notifications (afterCreate fault uid category us t org w1) = notifications w1 @ ns
              \<and> filter (\<lambda>n. ntfType n = ''TICKET_ASSIGNED'') ns
                  = map (assignedNotification t)
                      (filter (\<lambda>u. \<not> fault (NotificationCreate (assignedNotification t u))) us)"
  proof (cases category)
    case None
    have "afterCreate fault uid category us t org w1 = w4" by (simp add: ac None)
    moreover have "us = []" using assms None by simp
    ultimately show ?thesis using c by (simp add: n4 n3)
  next
    case (Some cat)
    let ?ns = "(if fault (NotificationCreate (createdNotification uid t)) then []
                  else [createdNotification uid t])
               @ map (assignedNotification t)
                   (filter (\<lambda>u. \<not> fault (NotificationCreate (assignedNotification t u))) us)"
    have "notifications (afterCreate fault uid category us t org w1) = notifications w1 @ ?ns"
      by (simp add: ac Some fold_notifyAssigned_fields n4 n3)
    moreover have "filter (\<lambda>n. ntfType n = ''TICKET_ASSIGNED'') ?ns
        = map (assignedNotification t)
            (filter (\<lambda>u. \<not> fault (NotificationCreate (assignedNotification t u))) us)"
      using c by (simp add: filter_assigned_map)
    ultimately show ?thesis by blast
  qed
  show "tickets (afterCreate fault uid category us t org w1) = tickets w1"
    by (cases category) (simp_all add: ac fold_notifyAssigned_fields t4)
qed

lemma afterCreatePublic_fields:
  assumes "category = None \<Longrightarrow> us = []"
  shows "\<exists>ms. outbox (afterCreatePublic body publicToken category us t org w1) = outbox w1 @ ms
              \<and> assignmentRecipients ms = map usrEmail us"
    and "notifications (afterCreatePublic body publicToken category us t org w1) = notifications w1"
    and "tickets (afterCreatePublic body publicToken category us t org w1) = tickets w1"
proof -
  define w2 where "w2 = (if orEmpty (bodySubmitterEmail body) \<noteq> []
                then sendMail (TicketSubmissionEmail (orEmpty (bodySubmitterEmail body)) (tktTitle t) (tktId t)
                                 (Some publicToken) (orgSlug org) ''en'') w1
                else w1)"
  have ac: "afterCreatePublic body publicToken c us' t org w1 =
      (case c of None \<Rightarrow> w2
       | Some cat \<Rightarrow> fold (\<lambda>assignedUser. sendMail (assignmentMail t cat org assignedUser)) us' w2)"
    for c us'
    unfolding afterCreatePublic_def Let_def w2_def by (rule refl)
  obtain ms where o2: "outbox w2 = outbox w1 @ ms" and ms: "assignmentRecipients ms = []"
    by (cases "orEmpty (bodySubmitterEmail body) = []")
       (simp_all add: w2_def sendMail_fields assignmentRecipients_def)
  have n2: "notifications w2 = notifications w1" and t2: "tickets w2 = tickets w1"
    by (simp_all add: w2_def sendMail_fields)
  show "\<exists>ms. outbox (afterCreatePublic body publicToken category us t org w1) = outbox w1 @ ms
              \<and> assignmentRecipients ms = map usrEmail us"
  proof (cases category)
    case None
    have "afterCreatePublic body publicToken category us t org w1 = w2" by (simp add: ac None)
    moreover have "us = []" using assms None by simp
    ultimately show ?thesis using o2 ms by simp
  next
    case (Some cat)
    have "outbox (afterCreatePublic body publicToken category us t org w1)
            = outbox w1 @ (ms @ map (assignmentMail t cat org) us)"
      by (simp add: ac Some fold_sendMail_fields o2)
    moreover have "assignmentRecipients (ms @ map (assignmentMail t cat org) us) = map usrEmail us"
      by (simp add: assignmentRecipients_append assignmentRecipients_mails ms)
    ultimately show ?thesis by blast
  qed
  show "notifications (afterCreatePublic body publicToken category us t org w1) = notifications w1"
    by (cases category) (simp_all add: ac fold_sendMail_fields n2)
  show "tickets (afterCreatePublic body publicToken category us t org w1) = tickets w1"
    by (cases category) (simp_all add: ac fold_sendMail_fields t2)
qed

lemma bodyCategory_None:
  assumes "\<not> (truthy (bodyCategoryId body) \<and> bodyCategory w oid body = None)"
    and "bodyCategory w oid body = None"
  shows "snd (autoAssign w oid' (bodyCategoryId body)) = []"
  using assms by (simp add: autoAssign_falsy)

lemma createTicket_created:
  assumes "createTicket isEmail fault rand gen w uid oid body = (Json 201 t, w')"
  shows "t = createTicketData gen uid oid body (fst (uniqueToken w rand))
               (fst (autoAssign w (Some oid) (bodyCategoryId body)))"
    and "assignmentRecipients (newMails w w')
           = map usrEmail (snd (autoAssign w (Some oid) (bodyCategoryId body)))"
    and "filter (\<lambda>n. ntfType n = ''TICKET_ASSIGNED'') (newNotifications w w')
           = map (assignedNotification t)
               (filter (\<lambda>u. \<not> fault (NotificationCreate (assignedNotification t u)))
                  (snd (autoAssign w (Some oid) (bodyCategoryId body))))"
    and "tickets w' = tickets w @ [t]"
    and "createTicketSchema isEmail body"
proof -
  let ?us = "snd (autoAssign w (Some oid) (bodyCategoryId body))"
  let ?cat = "bodyCategory w (Some oid) body"
  let ?row = "createTicketData gen uid oid body (fst (uniqueToken w rand))
               (fst (autoAssign w (Some oid) (bodyCategoryId body)))"
  from assms have ok: "createTicketSchema isEmail body"
    and cat: "\<not> (truthy (bodyCategoryId body) \<and> ?cat = None)"
    by (auto simp: createTicket_def split: if_splits)
  from assms ok cat obtain org w1 where
    tc: "ticketCreate fault ?row w = (Returned (t, org), w1)"
    and w': "w' = afterCreate fault uid ?cat ?us t org w1"
    by (auto simp: createTicket_def Let_def split: prod.splits outcome.splits)
  from ticketCreate_Returned[OF tc] have t: "t = ?row"
    and w1: "w1 = w\<lparr>tickets := tickets w @ [?row]\<rparr>" by simp_all
  have e: "?cat = None \<Longrightarrow> ?us = []" using cat by (rule bodyCategory_None)
  have o: "outbox w1 = outbox w" and n: "notifications w1 = notifications w"
    and tk: "tickets w1 = tickets w @ [t]" by (simp_all add: w1 t)
  show "t = ?row" by (rule t)
  show "createTicketSchema isEmail body" by (rule ok)
  show "assignmentRecipients (newMails w w') = map usrEmail ?us"
    using afterCreate_fields(1)[OF e] unfolding newMails_def w' o[symmetric] by (metis append_eq_conv_conj)
  show "filter (\<lambda>n. ntfType n = ''TICKET_ASSIGNED'') (newNotifications w w')
           = map (assignedNotification t)
               (filter (\<lambda>u. \<not> fault (NotificationCreate (assignedNotification t u))) ?us)"
    using afterCreate_fields(2)[OF e] unfolding newNotifications_def w' n[symmetric]
    by (metis append_eq_conv_conj)
  show "tickets w' = tickets w @ [t]"
    using afterCreate_fields(3)[OF e] by (simp add: w' tk)
qed


lemma createPublicTicket_created:
  assumes "createPublicTicket isEmail fault rand gen w ctx body = (Json 201 t, w')"
  shows "\<exists>oid. organizationId ctx = Some oid
           \<and> t = createPublicTicketData gen oid body (fst (uniqueToken w rand))
                   (fst (autoAssign w (organizationId ctx) (bodyCategoryId body)))"
    and "assignmentRecipients (newMails w w')
           = map usrEmail (snd (autoAssign w (organizationId ctx) (bodyCategoryId body)))"
    and "newNotifications w w' = []"
    and "tickets w' = tickets w @ [t]"
    and "createPublicTicketSchema isEmail body"
proof -
  let ?us = "snd (autoAssign w (organizationId ctx) (bodyCategoryId body))"
  let ?cat = "bodyCategory w (organizationId ctx) body"
  let ?row = "\<lambda>oid. createPublicTicketData gen oid body (fst (uniqueToken w rand))
               (fst (autoAssign w (organizationId ctx) (bodyCategoryId body)))"
  from assms have ok: "createPublicTicketSchema isEmail body"
    and cat: "\<not> (truthy (bodyCategoryId body) \<and> ?cat = None)"
    by (auto simp: createPublicTicket_def split: if_splits)
  from assms ok cat obtain oid org w1 where
    oid: "organizationId ctx = Some oid"
    and tc: "ticketCreate fault (?row oid) w = (Returned (t, org), w1)"
    and w': "w' = afterCreatePublic body (fst (uniqueToken w rand)) ?cat ?us t org w1"
    by (auto simp: createPublicTicket_def Let_def split: prod.splits outcome.splits option.splits)
  from ticketCreate_Returned[OF tc] have t: "t = ?row oid"
    and w1: "w1 = w\<lparr>tickets := tickets w @ [?row oid]\<rparr>" by simp_all
  have e: "?cat = None \<Longrightarrow> ?us = []" using cat by (rule bodyCategory_None)
  have o: "outbox w1 = outbox w" and n: "notifications w1 = notifications w"
    and tk: "tickets w1 = tickets w @ [t]" by (simp_all add: w1 t)
  show "\<exists>oid. organizationId ctx = Some oid \<and> t = ?row oid" using oid t by blast
  show "createPublicTicketSchema isEmail body" by (rule ok)
  show "assignmentRecipients (newMails w w') = map usrEmail ?us"
    using afterCreatePublic_fields(1)[OF e] unfolding newMails_def w' o[symmetric]
    by (metis append_eq_conv_conj)
  show "newNotifications w w' = []"
    using afterCreatePublic_fields(2)[OF e] by (simp add: newNotifications_def w' n)
  show "tickets w' = tickets w @ [t]"
    using afterCreatePublic_fields(3)[OF e] by (simp add: w' tk)
qed

lemma postTicket_created:
  assumes "postTicket isEmail fault rand gen w ctx body = (Json 201 t, w')"
  shows "\<exists>uid oid. userId ctx = Some uid \<and> organizationId ctx = Some oid
           \<and> createTicket isEmail fault rand gen w uid oid body = (Json 201 t, w')"
  using assms
  by (cases "userId ctx"; cases "organizationId ctx")
     (auto simp: postTicket_def verifyOrganizationAccess_def truthy_def orEmpty_def
           split: if_splits option.splits)

section \<open>Claims on ticket creation\<close>





text \<open>
  What the two creation handlers store, provided the mail-address check rejects the empty
  string: a ticket created by \<open>POST /tickets/public\<close> has \<open>submitterEmail\<close>, \<open>submitterName\<close> and
  \<open>publicToken\<close> set and no \<open>userId\<close>; a ticket created by \<open>POST /tickets\<close> has neither
  \<open>submitterEmail\<close> nor \<open>submitterName\<close>, and its \<open>publicToken\<close> is set as well.
\<close>

lemma creation_submitter_and_token:
  assumes "\<not> isEmail []"
  shows "(\<forall>t w'. createPublicTicket isEmail fault rand gen w ctx body = (Json 201 t, w') \<longrightarrow>
            tktSubmitterEmail t \<noteq> None \<and> tktSubmitterName t \<noteq> None \<and> tktPublicToken t \<noteq> None
            \<and> tktUserId t = None \<and> t \<in> set (tickets w'))
       \<and> (\<forall>t w'. postTicket isEmail fault rand gen w ctx body = (Json 201 t, w') \<longrightarrow>
            tktSubmitterEmail t = None \<and> tktSubmitterName t = None \<and> tktPublicToken t \<noteq> None
            \<and> tktUserId t \<noteq> None \<and> t \<in> set (tickets w'))"
proof -
  have 1: "tktSubmitterEmail t \<noteq> None \<and> tktSubmitterName t \<noteq> None \<and> tktPublicToken t \<noteq> None
            \<and> tktUserId t = None \<and> t \<in> set (tickets w')"
    if "createPublicTicket isEmail fault rand gen w ctx body = (Json 201 t, w')" for t w'
  proof -
    note r = createPublicTicket_created[OF that]
    from r(5) assms have "orEmpty (bodySubmitterEmail body) \<noteq> []"
      and "orEmpty (bodySubmitterName body) \<noteq> []"
      by (auto simp: createPublicTicketSchema_def required_def minLength_def orEmpty_def
               split: option.splits)
    with r(1) r(4) show ?thesis by (auto simp: createPublicTicketData_def orNull_def)
  qed
  have 2: "tktSubmitterEmail t = None \<and> tktSubmitterName t = None \<and> tktPublicToken t \<noteq> None
            \<and> tktUserId t \<noteq> None \<and> t \<in> set (tickets w')"
    if "postTicket isEmail fault rand gen w ctx body = (Json 201 t, w')" for t w'
  proof -
    from postTicket_created[OF that] obtain uid oid where
      c: "createTicket isEmail fault rand gen w uid oid body = (Json 201 t, w')" by blast
    note r = createTicket_created[OF c]
    from r(1) r(4) show ?thesis by (simp add: createTicketData_def)
  qed
  from 1 2 show ?thesis by blast
qed

text \<open>
  C5. The code departs from the claim where the claim says that a ticket with a
  \<open>publicToken\<close> is trackable without authentication. A public submission to Acme is
  answered 201 and stores a ticket with the token \<open>AAAAAAAA\<close>. The tracking request
  \<open>GET /tickets/public?org=ACME&token=AAAAAAAA\<close> without \<open>Authorization\<close> header is then
  answered 401: \<open>router.get('/:id', authenticate, ...)\<close> is registered before
  \<open>router.get('/public', ...)\<close> and takes the request. The handler registered for
  \<open>/public\<close>, had it been reached, would have returned that ticket.
\<close>

theorem public_tracking_requires_authentication:
  "fst (postPublicTicket exEnv exIsEmail (\<lambda>x. False) exRand exGenerated exWorld exRequest exBody)
     = Json 201 (createPublicTicketData exGenerated ''o1'' exBody ''AAAAAAAA'' (Some ''u2''))
   \<and> tktPublicToken (createPublicTicketData exGenerated ''o1'' exBody ''AAAAAAAA'' (Some ''u2''))
       = Some ''AAAAAAAA''
   \<and> authorization (exRequest\<lparr>queryToken := Some ''AAAAAAAA''\<rparr>) = None
   \<and> getTickets exVerify exEnv
        (snd (postPublicTicket exEnv exIsEmail (\<lambda>x. False) exRand exGenerated exWorld exRequest exBody))
        (exRequest\<lparr>queryToken := Some ''AAAAAAAA''\<rparr>) ''public''
       = Some (Message 401 ''Authentication required'')
   \<and> trackingRoute exEnv
        (snd (postPublicTicket exEnv exIsEmail (\<lambda>x. False) exRand exGenerated exWorld exRequest exBody))
        (exRequest\<lparr>queryToken := Some ''AAAAAAAA''\<rparr>)
       = Json 200 (createPublicTicketData exGenerated ''o1'' exBody ''AAAAAAAA'' (Some ''u2''), [])"
  by code_simp

section \<open>Claims on the notification and activity-log helpers\<close>

lemma createTicket_response:
  assumes "\<forall>row. fault' (TicketCreate row) = fault (TicketCreate row)"
  shows "fst (createTicket isEmail fault' rand gen w uid oid body)
           = fst (createTicket isEmail fault rand gen w uid oid body)"
  using assms
  by (simp add: createTicket_def ticketCreate_def Let_def split: option.splits)

lemma postTicket_response:
  assumes "\<forall>row. fault' (TicketCreate row) = fault (TicketCreate row)"
  shows "fst (postTicket isEmail fault' rand gen w ctx body)
           = fst (postTicket isEmail fault rand gen w ctx body)"
  using createTicket_response[OF assms]
  by (simp add: postTicket_def split: step.splits)

text \<open>
  C10. \<open>createNotification\<close>, \<open>createNotificationsForUsers\<close> and \<open>createActivityLog\<close> return
  normally for every input, whether the write fails or not; a failed write leaves the
  tables as they were and adds one line to the console. The answer of \<open>POST /tickets\<close>,
  the modelled route that calls them, is the same whichever notification and activity-log
  writes fail.
\<close>

theorem helpers_never_throw:
  "createNotification fault data w =
     (Returned (), if fault (NotificationCreate data)
                   then w\<lparr>console := console w @ [''Failed to create notification:'']\<rparr>
                   else w\<lparr>notifications := notifications w @ [data]\<rparr>)
   \<and> createNotificationsForUsers fault userIds data w =
     (Returned (), if fault (NotificationCreateMany (map (\<lambda>u. data\<lparr>ntfUserId := u\<rparr>) userIds))
                   then w\<lparr>console := console w @ [''Failed to create notifications:'']\<rparr>
                   else w\<lparr>notifications :=
                            notifications w @ map (\<lambda>u. data\<lparr>ntfUserId := u\<rparr>) userIds\<rparr>)
   \<and> createActivityLog fault ldata w =
     (Returned (), if fault (ActivityLogCreate (activityLogRow ldata))
                   then w\<lparr>console := console w @ [''Failed to create activity log:'']\<rparr>
                   else w\<lparr>activityLogs := activityLogs w @ [activityLogRow ldata]\<rparr>)
   \<and> (\<forall>fault'. (\<forall>row. fault' (TicketCreate row) = fault (TicketCreate row)) \<longrightarrow>
         fst (postTicket isEmail fault' rand gen w ctx body)
           = fst (postTicket isEmail fault rand gen w ctx body))"
  using createNotification_world createNotificationsForUsers_world createActivityLog_world
    postTicket_response
  by blast

theorem helpers_never_throw_witness:
  "fst (createNotification exFault (createdNotification ''u1'' exTicket) exWorld) = Returned ()
   \<and> snd (createNotification exFault (createdNotification ''u1'' exTicket) exWorld)
       = exWorld\<lparr>console := [''Failed to create notification:'']\<rparr>
   \<and> fst (postTicket exIsEmail exFault exRand exGenerated exWorld exContext exBody)
       = Json 201 (createTicketData exGenerated ''u1'' ''o1'' exBody ''AAAAAAAA'' (Some ''u2''))
   \<and> fst (postTicket exIsEmail (\<lambda>x. False) exRand exGenerated exWorld exContext exBody)
       = Json 201 (createTicketData exGenerated ''u1'' ''o1'' exBody ''AAAAAAAA'' (Some ''u2''))
   \<and> console (snd (postTicket exIsEmail exFault exRand exGenerated exWorld exContext exBody))
       = [''Failed to create activity log:'', ''Failed to create notification:'',
          ''Failed to create notification:'', ''Failed to create notification:'']"
proof -
  have h: "\<forall>row. exFault (TicketCreate row) = (\<lambda>x. False) (TicketCreate row)"
    by (simp add: exFault_def)
  have f: "exFault (NotificationCreate (createdNotification ''u1'' exTicket))"
    by (simp add: exFault_def)
  have c: "console exWorld = []" by (simp add: exWorld_def)
  have r: "fst (postTicket exIsEmail (\<lambda>x. False) exRand exGenerated exWorld exContext exBody)
       = Json 201 (createTicketData exGenerated ''u1'' ''o1'' exBody ''AAAAAAAA'' (Some ''u2''))"
    by code_simp
  have l: "console (snd (postTicket exIsEmail exFault exRand exGenerated exWorld exContext exBody))
       = [''Failed to create activity log:'', ''Failed to create notification:'',
          ''Failed to create notification:'', ''Failed to create notification:'']"
    by code_simp
  note th = helpers_never_throw[of "\<lambda>x. False" "createdNotification ''u1'' exTicket" exWorld]
  note th' = helpers_never_throw[of exFault "createdNotification ''u1'' exTicket" exWorld]
  from th have "fst (postTicket exIsEmail exFault exRand exGenerated exWorld exContext exBody)
      = fst (postTicket exIsEmail (\<lambda>x. False) exRand exGenerated exWorld exContext exBody)"
    using h by blast
  moreover from th' f c
  have "createNotification exFault (createdNotification ''u1'' exTicket) exWorld
          = (Returned (), exWorld\<lparr>console := [''Failed to create notification:'']\<rparr>)"
    by simp
  ultimately show ?thesis using r l by simp
qed

end
